theory Spec2Isabelle
  imports Main "HOL-Library.Word"
begin

section \<open>File names: upper-casing and the two patterns\<close>

text \<open>
  A Go string is a sequence of bytes, here a \<open>string\<close> (a list of 8-bit characters).
  \<open>strings.ToUpper\<close> maps the ASCII letters a-z to A-Z. On a name that is not pure ASCII it
  decodes UTF-8 and maps every rune with \<open>unicode.ToUpper\<close>; two runes outside ASCII have an
  ASCII upper case: U+017F (bytes C5 BF) becomes S and U+0131 (bytes C4 B1) becomes I. Every
  other rune outside ASCII, and every ill-formed byte, is written back as bytes of value 128
  or more; the model keeps such bytes as they are (both patterns below consist of ASCII
  characters only, so they cannot tell such bytes apart).
\<close>

definition upperByte :: "char \<Rightarrow> char" where
  "upperByte c =
     (if (97::nat) \<le> of_char c \<and> of_char c \<le> (122::nat) then char_of (of_char c - (32::nat)) else c)"

fun ToUpper :: "string \<Rightarrow> string" where
  "ToUpper (c # d # cs) =
     (if c = CHR 0xC5 \<and> d = CHR 0xBF then CHR ''S'' # ToUpper cs
      else if c = CHR 0xC4 \<and> d = CHR 0xB1 then CHR ''I'' # ToUpper cs
      else upperByte c # ToUpper (d # cs))"
| "ToUpper [c] = [upperByte c]"
| "ToUpper [] = []"

definition HasSuffix :: "string \<Rightarrow> string \<Rightarrow> bool" where
  "HasSuffix s suffix =
     (length suffix \<le> length s \<and> drop (length s - length suffix) s = suffix)"

text \<open>
  Regular expressions as far as the two patterns of the source need them: a character, a
  range of characters, sequence, choice and iteration. \<open>Plus\<close>, \<open>Times\<close> and \<open>Lit\<close> build
  \<open>r+\<close>, \<open>r{n}\<close> and a literal string. Both patterns start with \<open>^\<close> and end with \<open>$\<close> (no
  flag \<open>m\<close>: beginning and end of the text), so \<open>MatchString\<close> decides whether the whole text
  belongs to the expression between the two anchors; it does so with derivatives.
\<close>

datatype rexp =
    Empty
  | Eps
  | Chr char
  | Range char char
  | Seq rexp rexp
  | Alt rexp rexp
  | Star rexp

fun Times :: "nat \<Rightarrow> rexp \<Rightarrow> rexp" where
  "Times 0 r = Eps"
| "Times (Suc n) r = Seq r (Times n r)"

definition Plus :: "rexp \<Rightarrow> rexp" where
  "Plus r = Seq r (Star r)"

fun Lit :: "string \<Rightarrow> rexp" where
  "Lit [] = Eps"
| "Lit (c # cs) = Seq (Chr c) (Lit cs)"

definition inRange :: "char \<Rightarrow> char \<Rightarrow> char \<Rightarrow> bool" where
  "inRange lo hi c = ((of_char lo :: nat) \<le> of_char c \<and> (of_char c :: nat) \<le> of_char hi)"

fun nullable :: "rexp \<Rightarrow> bool" where
  "nullable Empty = False"
| "nullable Eps = True"
| "nullable (Chr c) = False"
| "nullable (Range lo hi) = False"
| "nullable (Seq r s) = (nullable r \<and> nullable s)"
| "nullable (Alt r s) = (nullable r \<or> nullable s)"
| "nullable (Star r) = True"

fun deriv :: "char \<Rightarrow> rexp \<Rightarrow> rexp" where
  "deriv c Empty = Empty"
| "deriv c Eps = Empty"
| "deriv c (Chr d) = (if c = d then Eps else Empty)"
| "deriv c (Range lo hi) = (if inRange lo hi c then Eps else Empty)"
| "deriv c (Seq r s) =
     (if nullable r then Alt (Seq (deriv c r) s) (deriv c s) else Seq (deriv c r) s)"
| "deriv c (Alt r s) = Alt (deriv c r) (deriv c s)"
| "deriv c (Star r) = Seq (deriv c r) (Star r)"

fun MatchString :: "rexp \<Rightarrow> string \<Rightarrow> bool" where
  "MatchString r [] = nullable r"
| "MatchString r (c # cs) = MatchString (deriv c r) cs"

definition digit :: rexp where
  "digit = Range CHR ''0'' CHR ''9''"

definition upperHex :: rexp where
  "upperHex = Alt (Range CHR ''A'' CHR ''F'') (Range CHR ''0'' CHR ''9'')"

text \<open>\<^verbatim>\<open>^\d+_[A-F0-9]{66}_\d{2}\.MASSDB$\<close> and its suffix.\<close>

definition regStrV1 :: rexp where
  "regStrV1 =
     Seq (Plus digit) (Seq (Chr CHR ''_'') (Seq (Times 66 upperHex) (Seq (Chr CHR ''_'')
       (Seq (Times 2 digit) (Lit ''.MASSDB'')))))"

definition suffixV1 :: string where
  "suffixV1 = ''.MASSDB''"

text \<open>\<^verbatim>\<open>^PLOT-K\d{2}-\d{4}(-\d{2}){4}-[A-F0-9]{64}\.PLOT$\<close> and its suffix.\<close>

definition regStrV2 :: rexp where
  "regStrV2 =
     Seq (Lit ''PLOT-K'') (Seq (Times 2 digit) (Seq (Chr CHR ''-'') (Seq (Times 4 digit)
       (Seq (Times 4 (Seq (Chr CHR ''-'') (Times 2 digit))) (Seq (Chr CHR ''-'')
         (Seq (Times 64 upperHex) (Lit ''.PLOT'')))))))"

definition suffixV2 :: string where
  "suffixV2 = ''.PLOT''"

text \<open>
  The test of both scanning loops: \<open>continue\<close> with the next file when the upper-cased
  name lacks the suffix or does not match the pattern.
\<close>

definition mismatch :: "rexp \<Rightarrow> string \<Rightarrow> string \<Rightarrow> bool" where
  "mismatch regExpB suffixB fileName =
     (\<not> HasSuffix (ToUpper fileName) suffixB \<or> \<not> MatchString regExpB (ToUpper fileName))"

section \<open>Data of the program and of its collaborators\<close>

text \<open>
  An \<open>error\<close> of Go; \<open>None\<close> of \<open>error option\<close> is \<open>nil\<close>. \<open>ErrNotExist\<close> stands for the
  errors that \<open>os.IsNotExist\<close> recognises, \<open>ErrorString\<close> for every other one.
\<close>

datatype error = ErrNotExist | ErrorString string

definition IsNotExist :: "error option \<Rightarrow> bool" where
  "IsNotExist err = (err = Some ErrNotExist)"

datatype ProofType = ProofTypeDefault | ProofTypeChia

record BindingPlot =
  Target :: string
  Type :: ProofType
  Size :: "8 word"

record BindingList =
  Plots :: "BindingPlot list"
  TotalCount :: "64 word"
  DefaultCount :: "64 word"
  ChiaCount :: "64 word"

record MassDBInfoV1 =
  PublicKey :: string
  BitLength :: int
  Plotted :: bool

record MassDBInfoV2 =
  PoolPublicKey :: string
  FarmerPublicKey :: string
  PlotID :: string
  K :: int

record Keystore =
  GetPoolPrivateKey :: "string \<Rightarrow> error + string"
  GetFarmerPrivateKey :: "string \<Rightarrow> error + string"

record FileInfo =
  IsDir :: bool

text \<open>
  Everything outside the program: the file system, the libraries of mass-core and the
  interrupt channel. \<open>interruptCh env n\<close> tells whether a signal is waiting in the channel
  when the scan polls it for the \<open>n\<close>-th time (counting from 0). \<open>ioutil_ReadDir\<close> gives
  the names of the entries of a directory.
\<close>

record env =
  ShowAppHelp :: "error option"
  filepath_Abs :: "string \<Rightarrow> error + string"
  os_Stat :: "string \<Rightarrow> error + FileInfo"
  ioutil_ReadDir :: "string \<Rightarrow> error + string list"
  NewMassDBInfoV1FromFile :: "string \<Rightarrow> error + MassDBInfoV1"
  NewMassDBInfoV2FromFile :: "string \<Rightarrow> error + MassDBInfoV2"
  GetMassDBBindingTarget :: "string \<Rightarrow> int \<Rightarrow> error + string"
  GetChiaPlotBindingTarget :: "string \<Rightarrow> int \<Rightarrow> error + string"
  NewKeystoreFromFile :: "string \<Rightarrow> error + Keystore"
  interruptCh :: "nat \<Rightarrow> bool"
  json_MarshalIndent :: "BindingList \<Rightarrow> error + string"
  ioutil_WriteFile :: "string \<Rightarrow> string \<Rightarrow> error option"

text \<open>The command line after flag parsing, and the package-level variables set from it.\<close>

record Context =
  Args :: "string list"
  Bool_overwrite :: bool
  Bool_all :: bool
  String_keystore :: string
  String_type :: string
  StringSlice_dirs :: "string list"

record globals =
  getBindingListArgFilename :: string
  getBindingListFlagOverwrite :: bool
  getBindingListFlagListAll :: bool
  getBindingListFlagKeystore :: string
  getBindingListFlagPlotType :: string
  getBindingListFlagDirectories :: "string list"

section \<open>What a run does: the trace of its calls and messages\<close>

datatype Level = INFO | WARN | ERROR

datatype field = FStr string | FInt int | FErr "error option"

datatype event =
    CPrint Level string "(string \<times> field) list"
  | Println string
  | Printf string "field list"
  | CallShowAppHelp
  | CallAbs string
  | CallStat string
  | SignalNotify
  | Select bool
  | CallReadDir string
  | CallNewMassDBInfoV1FromFile string
  | CallNewMassDBInfoV2FromFile string
  | CallGetMassDBBindingTarget string int
  | CallGetChiaPlotBindingTarget string int
  | CallNewKeystoreFromFile string
  | CallMarshalIndent BindingList
  | CallWriteFile string string
  | LogFatal error
  | Panic string

type_synonym 'a io = "event list \<times> 'a"

definition emit :: "event list \<Rightarrow> 'a io \<Rightarrow> 'a io" where
  "emit es m = (es @ fst m, snd m)"

text \<open>
  \<open>filepath.Join\<close> of a directory that \<open>filepath.Abs\<close> returned and the name of one of
  its entries.
\<close>

definition Join :: "string \<Rightarrow> string \<Rightarrow> string" where
  "Join dbDir fileName = (if dbDir = ''/'' then dbDir @ fileName else dbDir @ ''/'' @ fileName)"

section \<open>getOfflineBindingListV1\<close>

text \<open>
  The loop over the entries of one directory. \<open>Inl\<close> is a \<open>return\<close> from inside the loop
  with the function's two results; \<open>Inr\<close> is the end of the loop with the number of polls
  so far, \<open>plots\<close> and \<open>dirSearched\<close>.
\<close>

fun filesV1 :: "env \<Rightarrow> bool \<Rightarrow> string \<Rightarrow> string list \<Rightarrow> nat \<Rightarrow> BindingPlot list \<Rightarrow> int \<Rightarrow>
    ((BindingPlot list \<times> error option) + (nat \<times> BindingPlot list \<times> int)) io" where
  "filesV1 env all dbDir [] polls plots dirSearched = ([], Inr (polls, plots, dirSearched))"
| "filesV1 env all dbDir (fileName # fis) polls plots dirSearched =
     (if interruptCh env polls then
        ([Select True, CPrint WARN ''cancel searching plot files'' []], Inl ([], None))
      else emit [Select False]
        (if mismatch regStrV1 suffixV1 fileName then
           filesV1 env all dbDir fis (Suc polls) plots dirSearched
         else emit [CallNewMassDBInfoV1FromFile (Join dbDir fileName)]
           (case NewMassDBInfoV1FromFile env (Join dbDir fileName) of
              Inl err \<Rightarrow>
                emit [CPrint WARN ''fail to read native massdb info'' [(''err'', FErr (Some err))]]
                  (filesV1 env all dbDir fis (Suc polls) plots dirSearched)
            | Inr info \<Rightarrow>
                if \<not> Plotted info \<and> \<not> all then
                  filesV1 env all dbDir fis (Suc polls) plots dirSearched
                else emit [CallGetMassDBBindingTarget (PublicKey info) (BitLength info)]
                  (case GetMassDBBindingTarget env (PublicKey info) (BitLength info) of
                     Inl err \<Rightarrow> ([], Inl ([], Some err))
                   | Inr target \<Rightarrow>
                       filesV1 env all dbDir fis (Suc polls)
                         (plots @ [\<lparr>Target = target, Type = ProofTypeDefault,
                                    Size = of_int (BitLength info)\<rparr>])
                         (dirSearched + 1)))))"

text \<open>The loop over the directories; \<open>Inr\<close> is its end with \<open>plots\<close> and \<open>totalSearched\<close>.\<close>

fun dirsV1 :: "env \<Rightarrow> bool \<Rightarrow> string list \<Rightarrow> nat \<Rightarrow> BindingPlot list \<Rightarrow> int \<Rightarrow>
    ((BindingPlot list \<times> error option) + (BindingPlot list \<times> int)) io" where
  "dirsV1 env all [] polls plots totalSearched = ([], Inr (plots, totalSearched))"
| "dirsV1 env all (dbDir # dirs) polls plots totalSearched =
     emit [CallReadDir dbDir]
       (case ioutil_ReadDir env dbDir of
          Inl err \<Rightarrow> ([], Inl ([], Some err))
        | Inr dirFileInfos \<Rightarrow>
            emit [CPrint INFO ''searching for native MassDB files'' [(''dir'', FStr dbDir)]]
              (case filesV1 env all dbDir dirFileInfos polls plots 0 of
                 (es, Inl ret) \<Rightarrow> (es, Inl ret)
               | (es, Inr (polls', plots', dirSearched)) \<Rightarrow>
                   emit (es @ [CPrint INFO ''loaded native MassDB files from directory''
                                [(''dir'', FStr dbDir), (''db_count'', FInt dirSearched)]])
                     (dirsV1 env all dirs polls' plots' (totalSearched + dirSearched))))"

text \<open>
  The pattern is a constant that compiles, so the \<open>return nil, err\<close> after
  \<open>regexp.Compile\<close> is never taken.
\<close>

definition getOfflineBindingListV1 :: "env \<Rightarrow> string list \<Rightarrow> bool \<Rightarrow>
    (BindingPlot list \<times> error option) io" where
  "getOfflineBindingListV1 env dirs all =
     (case dirsV1 env all dirs 0 [] 0 of
        (es, Inl ret) \<Rightarrow> (es, ret)
      | (es, Inr (plots, totalSearched)) \<Rightarrow>
          (es @ [CPrint INFO ''loaded native MassDB files from all directories''
                  [(''dir_count'', FInt (int (length dirs))),
                   (''total_db_count'', FInt totalSearched)]],
           (plots, None)))"

section \<open>getOfflineBindingListV2\<close>

definition ownablePlot :: "Keystore option \<Rightarrow> MassDBInfoV2 \<Rightarrow> bool" where
  "ownablePlot keystore info =
     (case keystore of
        None \<Rightarrow> True
      | Some ks \<Rightarrow>
          (case GetPoolPrivateKey ks (PoolPublicKey info) of
             Inl err \<Rightarrow> False
           | Inr poolKey \<Rightarrow>
               (case GetFarmerPrivateKey ks (FarmerPublicKey info) of
                  Inl err \<Rightarrow> False
                | Inr farmerKey \<Rightarrow> True)))"

fun filesV2 :: "env \<Rightarrow> Keystore option \<Rightarrow> string \<Rightarrow> string list \<Rightarrow> nat \<Rightarrow> BindingPlot list \<Rightarrow> int \<Rightarrow>
    ((BindingPlot list \<times> error option) + (nat \<times> BindingPlot list \<times> int)) io" where
  "filesV2 env keystore dbDir [] polls plots dirSearched = ([], Inr (polls, plots, dirSearched))"
| "filesV2 env keystore dbDir (fileName # fis) polls plots dirSearched =
     (if interruptCh env polls then
        ([Select True, CPrint WARN ''cancel searching plot files'' []], Inl ([], None))
      else emit [Select False]
        (if mismatch regStrV2 suffixV2 fileName then
           filesV2 env keystore dbDir fis (Suc polls) plots dirSearched
         else emit [CallNewMassDBInfoV2FromFile (Join dbDir fileName)]
           (case NewMassDBInfoV2FromFile env (Join dbDir fileName) of
              Inl err \<Rightarrow>
                emit [CPrint WARN ''fail to read chia plot info'' [(''err'', FErr (Some err))]]
                  (filesV2 env keystore dbDir fis (Suc polls) plots dirSearched)
            | Inr info \<Rightarrow>
                if \<not> ownablePlot keystore info then
                  filesV2 env keystore dbDir fis (Suc polls) plots dirSearched
                else emit [CallGetChiaPlotBindingTarget (PlotID info) (K info)]
                  (case GetChiaPlotBindingTarget env (PlotID info) (K info) of
                     Inl err \<Rightarrow> ([], Inl ([], Some err))
                   | Inr target \<Rightarrow>
                       filesV2 env keystore dbDir fis (Suc polls)
                         (plots @ [\<lparr>Target = target, Type = ProofTypeChia,
                                    Size = of_int (K info)\<rparr>])
                         (dirSearched + 1)))))"

fun dirsV2 :: "env \<Rightarrow> Keystore option \<Rightarrow> string list \<Rightarrow> nat \<Rightarrow> BindingPlot list \<Rightarrow> int \<Rightarrow>
    ((BindingPlot list \<times> error option) + (BindingPlot list \<times> int)) io" where
  "dirsV2 env keystore [] polls plots totalSearched = ([], Inr (plots, totalSearched))"
| "dirsV2 env keystore (dbDir # dirs) polls plots totalSearched =
     emit [CallReadDir dbDir]
       (case ioutil_ReadDir env dbDir of
          Inl err \<Rightarrow> ([], Inl ([], Some err))
        | Inr dirFileInfos \<Rightarrow>
            emit [CPrint INFO ''searching for chia plot files'' [(''dir'', FStr dbDir)]]
              (case filesV2 env keystore dbDir dirFileInfos polls plots 0 of
                 (es, Inl ret) \<Rightarrow> (es, Inl ret)
               | (es, Inr (polls', plots', dirSearched)) \<Rightarrow>
                   emit (es @ [CPrint INFO ''loaded chia plot files from directory''
                                [(''dir'', FStr dbDir), (''db_count'', FInt dirSearched)]])
                     (dirsV2 env keystore dirs polls' plots' (totalSearched + dirSearched))))"

text \<open>
  The part of the function after the keystore is loaded; \<open>err\<close> is the variable of the
  function, which the last line returns beside \<open>plots\<close>.
\<close>

definition scanV2 :: "env \<Rightarrow> string list \<Rightarrow> Keystore option \<Rightarrow> error option \<Rightarrow>
    (BindingPlot list \<times> error option) io" where
  "scanV2 env dirs keystore err =
     (case dirsV2 env keystore dirs 0 [] 0 of
        (es, Inl ret) \<Rightarrow> (es, ret)
      | (es, Inr (plots, totalSearched)) \<Rightarrow>
          (es @ [CPrint INFO ''loaded chia plot files from all directories''
                  [(''dir_count'', FInt (int (length dirs))),
                   (''total_db_count'', FInt totalSearched)]],
           (plots, err)))"

definition getOfflineBindingListV2 :: "env \<Rightarrow> string list \<Rightarrow> bool \<Rightarrow> string \<Rightarrow>
    (BindingPlot list \<times> error option) io" where
  "getOfflineBindingListV2 env dirs all keystoreFile =
     (if keystoreFile \<noteq> [] then
        emit [CallNewKeystoreFromFile keystoreFile]
          (case NewKeystoreFromFile env keystoreFile of
             Inl err \<Rightarrow> ([], ([], Some err))
           | Inr ks \<Rightarrow> scanV2 env dirs (Some ks) None)
      else scanV2 env dirs None None)"

section \<open>getOfflineBindingList\<close>

fun absDirs :: "env \<Rightarrow> string list \<Rightarrow> (error + string list) io" where
  "absDirs env [] = ([], Inr [])"
| "absDirs env (dir # dirs) =
     emit [CallAbs dir]
       (case filepath_Abs env dir of
          Inl err \<Rightarrow> ([], Inl err)
        | Inr absDir \<Rightarrow>
            (case absDirs env dirs of
               (es, Inl err) \<Rightarrow> (es, Inl err)
             | (es, Inr absDirectories) \<Rightarrow> (es, Inr (absDir # absDirectories))))"

text \<open>Lines 169 to 180: the error of the extractor, or the list with its three counts.\<close>

definition makeList :: "(BindingPlot list \<times> error option) io \<Rightarrow> 64 word \<Rightarrow> 64 word \<Rightarrow>
    (BindingList option \<times> error option) io" where
  "makeList r defaultCount chiaCount =
     (case r of (es, plots, err) \<Rightarrow>
        if err \<noteq> None then
          (es @ [CPrint ERROR ''fail to get offline binding list'' [(''err'', FErr err)]],
           (None, err))
        else
          (es, (Some \<lparr>Plots = plots, TotalCount = defaultCount + chiaCount,
                      DefaultCount = defaultCount, ChiaCount = chiaCount\<rparr>, None)))"

definition getOfflineBindingList :: "env \<Rightarrow> globals \<Rightarrow> (BindingList option \<times> error option) io" where
  "getOfflineBindingList env g =
     (case absDirs env (getBindingListFlagDirectories g) of
        (es, Inl err) \<Rightarrow> (es, (None, Some err))
      | (es, Inr absDirectories) \<Rightarrow>
          emit (es @ [SignalNotify,
                      CPrint INFO ''searching for plot files from disk, this may take a while (enter CTRL+C to cancel running)''
                        [(''dir_count'', FInt (int (length absDirectories)))]])
            (if getBindingListFlagPlotType g = ''m1'' then
               (let r = getOfflineBindingListV1 env absDirectories (getBindingListFlagListAll g)
                in makeList r (of_nat (length (fst (snd r)))) 0)
             else if getBindingListFlagPlotType g = ''m2'' then
               (let r = getOfflineBindingListV2 env absDirectories (getBindingListFlagListAll g)
                          (getBindingListFlagKeystore g)
                in makeList r 0 (of_nat (length (fst (snd r)))))
             else
               ([], (None, Some (ErrorString
                  ''invalid --type flag, should be m1 (for native MassDB) or m2 (for Chia Plot)'')))))"

section \<open>The action of the command line and main\<close>

text \<open>
  Modelled from the spec: the deduplication inside \<open>BindingList.RemoveDuplicate\<close>, a method
  of the library mass-core that is not part of the sources. The spec (4.5): deduplication
  removes later entries whose target equals an earlier entry's; removal is stable (the
  first occurrence wins). \<open>seen\<close> holds the targets met so far.
\<close>

fun firstSeen :: "string list \<Rightarrow> BindingPlot list \<Rightarrow> BindingPlot list" where
  "firstSeen seen [] = []"
| "firstSeen seen (p # ps) =
     (if Target p \<in> set seen then firstSeen seen ps else p # firstSeen (Target p # seen) ps)"

text \<open>
  Modelled from the spec: \<open>BindingList.RemoveDuplicate\<close> of the library mass-core, not part
  of the sources. The spec (4.5): it recomputes \<open>totalCount\<close> as the length after
  deduplication; \<open>defaultCount\<close> and \<open>chiaCount\<close> are the tallies from before the
  deduplication, passed through.
\<close>

definition RemoveDuplicate :: "BindingList \<Rightarrow> BindingList" where
  "RemoveDuplicate list =
     \<lparr>Plots = firstSeen [] (Plots list),
      TotalCount = of_nat (length (firstSeen [] (Plots list))),
      DefaultCount = DefaultCount list,
      ChiaCount = ChiaCount list\<rparr>"

text \<open>
  Lines 99 to 130, after the two checks of the file name. A nil list beside a nil error
  would make \<open>RemoveDuplicate\<close> dereference nil; \<open>getOfflineBindingList\<close> never returns
  that, and the model writes the panic as an event.
\<close>

definition collect :: "env \<Rightarrow> globals \<Rightarrow> error option io" where
  "collect env g =
     (case getOfflineBindingList env g of
        (es, list, Some err) \<Rightarrow>
          (es @ [CPrint ERROR ''fail to get binding list'' [(''err'', FErr (Some err))]], Some err)
      | (es, None, None) \<Rightarrow>
          (es @ [Panic ''invalid memory address or nil pointer dereference''],
           Some (ErrorString ''panic''))
      | (es, Some list0, None) \<Rightarrow>
          (let list = RemoveDuplicate list0 in
           if length (Plots list) = 0 then
             (es @ [Println ''saved nothing in the binding list''], None)
           else emit (es @ [CallMarshalIndent list])
             (case json_MarshalIndent env list of
                Inl err \<Rightarrow>
                  ([CPrint ERROR ''fail to marshal json''
                      [(''err'', FErr (Some err)), (''total_count'', FInt (uint (TotalCount list)))]],
                   Some err)
              | Inr data \<Rightarrow>
                  emit [CallWriteFile (getBindingListArgFilename g) data]
                    (case ioutil_WriteFile env (getBindingListArgFilename g) data of
                       Some err \<Rightarrow>
                         ([CPrint ERROR ''fail to write into binding list file''
                             [(''err'', FErr (Some err)),
                              (''total_count'', FInt (uint (TotalCount list))),
                              (''byte_size'', FInt (int (length data)))]],
                          Some err)
                     | None \<Rightarrow> ([Printf ''collected %d plot files.'' [FInt (uint (TotalCount list))]],
                          None)))))"

definition errOf :: "error + 'a \<Rightarrow> error option" where
  "errOf r = (case r of Inl err \<Rightarrow> Some err | Inr v \<Rightarrow> None)"

definition Action :: "env \<Rightarrow> Context \<Rightarrow> error option io" where
  "Action env context =
     (case Args context of
        [] \<Rightarrow> ([CallShowAppHelp], ShowAppHelp env)
      | first # rest \<Rightarrow>
          emit [CallAbs first]
            (case filepath_Abs env first of
               Inl err \<Rightarrow>
                 ([CPrint ERROR ''wrong filename format''
                     [(''err'', FErr (Some err)), (''filename'', FStr first)]], Some err)
             | Inr absPath \<Rightarrow>
                 emit [CallStat absPath]
                   (let fi = os_Stat env absPath; err = errOf fi in
                    if err = None \<and> (case fi of Inr i \<Rightarrow> IsDir i | Inl e \<Rightarrow> False) then
                      ([CPrint ERROR ''filename is a directory'' [(''filename'', FStr first)]],
                       err)
                    else
                      (let g = \<lparr>getBindingListArgFilename = absPath,
                                getBindingListFlagOverwrite = Bool_overwrite context,
                                getBindingListFlagListAll = Bool_all context,
                                getBindingListFlagKeystore = String_keystore context,
                                getBindingListFlagPlotType = String_type context,
                                getBindingListFlagDirectories = StringSlice_dirs context\<rparr>;
                           err = errOf (os_Stat env (getBindingListArgFilename g))
                       in emit [CallStat (getBindingListArgFilename g)]
                         (if \<not> IsNotExist err \<and> \<not> getBindingListFlagOverwrite g then
                            ([CPrint ERROR ''cannot overwrite existed file, try again with --overwrite''
                                [(''filename'', FStr (getBindingListArgFilename g))]], err)
                          else collect env g)))))"

text \<open>
  \<open>app.Run\<close> hands the error of the action back, and \<open>log.Fatal\<close> ends the process with
  status 1; otherwise \<open>main\<close> returns and the status is 0.
\<close>

definition main :: "env \<Rightarrow> Context \<Rightarrow> nat io" where
  "main env context =
     (case Action env context of
        (es, None) \<Rightarrow> (es, 0)
      | (es, Some err) \<Rightarrow> (es @ [LogFatal err], 1))"

section \<open>The meaning of a pattern\<close>

definition conc :: "string set \<Rightarrow> string set \<Rightarrow> string set" where
  "conc A B = {xs @ ys | xs ys. xs \<in> A \<and> ys \<in> B}"

inductive_set star :: "string set \<Rightarrow> string set" for A :: "string set" where
  star_nil: "[] \<in> star A"
| star_step: "a \<in> A \<Longrightarrow> u \<in> star A \<Longrightarrow> a @ u \<in> star A"

fun lang :: "rexp \<Rightarrow> string set" where
  "lang Empty = {}"
| "lang Eps = {[]}"
| "lang (Chr c) = {[c]}"
| "lang (Range lo hi) = {[c] | c. inRange lo hi c}"
| "lang (Seq r s) = conc (lang r) (lang s)"
| "lang (Alt r s) = lang r \<union> lang s"
| "lang (Star r) = star (lang r)"

definition isDigit :: "char \<Rightarrow> bool" where
  "isDigit c = inRange CHR ''0'' CHR ''9'' c"

definition isUpperHex :: "char \<Rightarrow> bool" where
  "isUpperHex c = (inRange CHR ''A'' CHR ''F'' c \<or> inRange CHR ''0'' CHR ''9'' c)"

section \<open>What a scan finds when nothing interrupts it\<close>

text \<open>
  The headers of the entries of a directory whose name passes the classifier and whose
  header parses, in the order of the listing, and the plot made from a header.
\<close>

definition headerV1 :: "env \<Rightarrow> string \<Rightarrow> string \<Rightarrow> MassDBInfoV1 option" where
  "headerV1 env dbDir fileName =
     (if mismatch regStrV1 suffixV1 fileName then None
      else case NewMassDBInfoV1FromFile env (Join dbDir fileName) of
             Inl err \<Rightarrow> None
           | Inr info \<Rightarrow> Some info)"

definition headersV1 :: "env \<Rightarrow> string \<Rightarrow> MassDBInfoV1 list" where
  "headersV1 env dbDir =
     (case ioutil_ReadDir env dbDir of
        Inl err \<Rightarrow> []
      | Inr fis \<Rightarrow> List.map_filter (headerV1 env dbDir) fis)"

definition plotV1 :: "env \<Rightarrow> MassDBInfoV1 \<Rightarrow> BindingPlot" where
  "plotV1 env info =
     \<lparr>Target = projr (GetMassDBBindingTarget env (PublicKey info) (BitLength info)),
      Type = ProofTypeDefault, Size = of_int (BitLength info)\<rparr>"

definition headerV2 :: "env \<Rightarrow> string \<Rightarrow> string \<Rightarrow> MassDBInfoV2 option" where
  "headerV2 env dbDir fileName =
     (if mismatch regStrV2 suffixV2 fileName then None
      else case NewMassDBInfoV2FromFile env (Join dbDir fileName) of
             Inl err \<Rightarrow> None
           | Inr info \<Rightarrow> Some info)"

definition headersV2 :: "env \<Rightarrow> string \<Rightarrow> MassDBInfoV2 list" where
  "headersV2 env dbDir =
     (case ioutil_ReadDir env dbDir of
        Inl err \<Rightarrow> []
      | Inr fis \<Rightarrow> List.map_filter (headerV2 env dbDir) fis)"

definition plotV2 :: "env \<Rightarrow> MassDBInfoV2 \<Rightarrow> BindingPlot" where
  "plotV2 env info =
     \<lparr>Target = projr (GetChiaPlotBindingTarget env (PlotID info) (K info)),
      Type = ProofTypeChia, Size = of_int (K info)\<rparr>"

text \<open>The store holds a private key when the lookup returns one and no error.\<close>

definition holds :: "error + string \<Rightarrow> bool" where
  "holds r = (case r of Inl err \<Rightarrow> False | Inr key \<Rightarrow> True)"

text \<open>
  Two plots of a list are cross-format duplicates when they have the same target and
  different types.
\<close>

definition crossFormatDuplicates :: "BindingPlot list \<Rightarrow> bool" where
  "crossFormatDuplicates plots =
     list_ex (\<lambda>p. list_ex (\<lambda>q. Target p = Target q \<and> Type p \<noteq> Type q) plots) plots"

section \<open>A small world to run the program in\<close>

text \<open>
  Two native file names (the first in lower case where letters occur) and two compatible
  ones, used by the examples below.
\<close>

definition nameA :: string where
  "nameA = ''1_02aabbccddeeff00112233445566778899AABBCCDDEEFF00112233445566778899_32.massdb''"

definition nameB :: string where
  "nameB = ''2_03FFEEDDCCBBAA99887766554433221100FFEEDDCCBBAA99887766554433221100_32.MASSDB''"

definition nameP :: string where
  "nameP = ''plot-k32-2021-06-01-12-30-00112233445566778899aabbccddeeff00112233445566778899AABBCCDDEEFF.plot''"

definition nameQ :: string where
  "nameQ = ''PLOT-K32-2021-06-02-08-15-FFEEDDCCBBAA99887766554433221100FFEEDDCCBBAA99887766554433221100.PLOT''"

definition infoA :: MassDBInfoV1 where
  "infoA = \<lparr>PublicKey = ''02aa'', BitLength = 32, Plotted = True\<rparr>"

definition infoU :: MassDBInfoV1 where
  "infoU = \<lparr>PublicKey = ''03ff'', BitLength = 32, Plotted = False\<rparr>"

definition infoX :: MassDBInfoV1 where
  "infoX = \<lparr>PublicKey = ''03ff'', BitLength = 99, Plotted = True\<rparr>"

definition infoP :: MassDBInfoV2 where
  "infoP = \<lparr>PoolPublicKey = ''poolP'', FarmerPublicKey = ''farmerP'', PlotID = ''0011'', K = 32\<rparr>"

definition infoQ :: MassDBInfoV2 where
  "infoQ = \<lparr>PoolPublicKey = ''poolQ'', FarmerPublicKey = ''farmerQ'', PlotID = ''ffee'', K = 32\<rparr>"

definition infoY :: MassDBInfoV2 where
  "infoY = \<lparr>PoolPublicKey = ''poolP'', FarmerPublicKey = ''farmerP'', PlotID = ''ffee'', K = 7\<rparr>"

text \<open>A keystore with both keys of \<open>infoP\<close> and only the pool key of \<open>infoQ\<close>.\<close>

definition keys :: Keystore where
  "keys =
     \<lparr>GetPoolPrivateKey = (\<lambda>pk. if pk = ''poolP'' \<or> pk = ''poolQ'' then Inr (''sk-'' @ pk)
                                  else Inl (ErrorString ''key not found'')),
      GetFarmerPrivateKey = (\<lambda>pk. if pk = ''farmerP'' then Inr (''sk-'' @ pk)
                                    else Inl (ErrorString ''key not found''))\<rparr>"

text \<open>
  The directories: \<open>/m1\<close> holds a corrupt and a valid native file; \<open>/m1u\<close> a plotted file,
  a text file and a file that is not plotted; \<open>/m1x\<close> a valid file and one whose target
  cannot be derived; \<open>/m2\<close>, \<open>/m2o\<close> and \<open>/m2x\<close> hold the same for the compatible format,
  with a file of a foreign farmer in \<open>/m2o\<close>. \<open>/out\<close> is a directory, \<open>/out/old.json\<close> a
  file. The argument says at which polls a signal waits in the interrupt channel.
\<close>

definition world :: "(nat \<Rightarrow> bool) \<Rightarrow> env" where
  "world signal =
     \<lparr>ShowAppHelp = None,
      filepath_Abs = Inr,
      os_Stat = (\<lambda>p. if p = ''/out'' then Inr \<lparr>IsDir = True\<rparr>
                      else if p = ''/out/old.json'' then Inr \<lparr>IsDir = False\<rparr>
                      else Inl ErrNotExist),
      ioutil_ReadDir = (\<lambda>d. if d = ''/m1'' then Inr [nameB, nameA]
                             else if d = ''/m1u'' then Inr [nameA, ''garbage.txt'', nameB]
                             else if d = ''/m1x'' then Inr [nameA, nameB]
                             else if d = ''/m2'' then Inr [nameP, nameQ]
                             else if d = ''/m2o'' then Inr [nameP, ''garbage.txt'', nameQ]
                             else if d = ''/m2x'' then Inr [nameP, nameQ]
                             else Inl ErrNotExist),
      NewMassDBInfoV1FromFile =
        (\<lambda>p. if p = ''/m1/'' @ nameA \<or> p = ''/m1u/'' @ nameA \<or> p = ''/m1x/'' @ nameA then Inr infoA
              else if p = ''/m1u/'' @ nameB then Inr infoU
              else if p = ''/m1x/'' @ nameB then Inr infoX
              else Inl (ErrorString ''bad header'')),
      NewMassDBInfoV2FromFile =
        (\<lambda>p. if p = ''/m2/'' @ nameP \<or> p = ''/m2o/'' @ nameP \<or> p = ''/m2x/'' @ nameP then Inr infoP
              else if p = ''/m2o/'' @ nameQ then Inr infoQ
              else if p = ''/m2x/'' @ nameQ then Inr infoY
              else Inl (ErrorString ''bad header'')),
      GetMassDBBindingTarget =
        (\<lambda>pk bl. if bl = 32 then Inr (''m1-'' @ pk) else Inl (ErrorString ''invalid bit length'')),
      GetChiaPlotBindingTarget =
        (\<lambda>plotId k. if k = 32 then Inr (''m2-'' @ plotId) else Inl (ErrorString ''invalid k'')),
      NewKeystoreFromFile =
        (\<lambda>f. if f = ''/keys.json'' then Inr keys else Inl (ErrorString ''cannot read keystore'')),
      interruptCh = signal,
      json_MarshalIndent = (\<lambda>list. Inr ''{}''),
      ioutil_WriteFile = (\<lambda>name data. None)\<rparr>"

definition never :: "nat \<Rightarrow> bool" where
  "never n = False"

definition afterFirst :: "nat \<Rightarrow> bool" where
  "afterFirst n = (n = 1)"

definition commandLine :: "string \<Rightarrow> string \<Rightarrow> string list \<Rightarrow> Context" where
  "commandLine file type dirs =
     \<lparr>Args = [file], Bool_overwrite = False, Bool_all = False, String_keystore = [],
      String_type = type, StringSlice_dirs = dirs\<rparr>"

definition flags :: "string \<Rightarrow> string list \<Rightarrow> globals" where
  "flags type dirs =
     \<lparr>getBindingListArgFilename = ''/out/new.json'', getBindingListFlagOverwrite = False,
      getBindingListFlagListAll = False, getBindingListFlagKeystore = [],
      getBindingListFlagPlotType = type, getBindingListFlagDirectories = dirs\<rparr>"

text \<open>The list that the scan of the directory \<open>/m1\<close>, named twice, produces.\<close>

definition twice :: BindingList where
  "twice =
     \<lparr>Plots = [\<lparr>Target = ''m1-02aa'', Type = ProofTypeDefault, Size = 32\<rparr>,
               \<lparr>Target = ''m1-02aa'', Type = ProofTypeDefault, Size = 32\<rparr>],
      TotalCount = 2, DefaultCount = 2, ChiaCount = 0\<rparr>"

text \<open>The list that the scan of the directory \<open>/m1u\<close> produces.\<close>

definition single :: BindingList where
  "single =
     \<lparr>Plots = [\<lparr>Target = ''m1-02aa'', Type = ProofTypeDefault, Size = 32\<rparr>],
      TotalCount = 1, DefaultCount = 1, ChiaCount = 0\<rparr>"

section \<open>The matcher decides the language of the pattern\<close>

lemma conc_iff: "s \<in> conc A B \<longleftrightarrow> (\<exists>u v. s = u @ v \<and> u \<in> A \<and> v \<in> B)"
  by (auto simp: conc_def)

lemma nullable_iff: "nullable r \<longleftrightarrow> [] \<in> lang r"
  by (induction r) (auto simp: conc_iff intro: star.star_nil)

lemma Cons_in_conc:
  "c # s \<in> conc A B \<longleftrightarrow>
     (\<exists>u v. s = u @ v \<and> c # u \<in> A \<and> v \<in> B) \<or> ([] \<in> A \<and> c # s \<in> B)"
  unfolding conc_iff
  apply (rule iffI)
   apply (elim exE conjE)
  subgoal for u v by (cases u) auto
  apply (elim disjE exE conjE)
   apply (metis append_Cons)
  apply (metis append_Nil)
  done

lemma Cons_in_star_D:
  "w \<in> star A \<Longrightarrow> w = c # s \<Longrightarrow> \<exists>u v. s = u @ v \<and> c # u \<in> A \<and> v \<in> star A"
proof (induction arbitrary: s rule: star.induct)
  case star_nil
  then show ?case by simp
next
  case (star_step a u)
  show ?case
  proof (cases a)
    case Nil
    with star_step show ?thesis by simp
  next
    case (Cons x xs)
    with star_step.prems have "x = c" and "s = xs @ u" by simp_all
    with Cons star_step.hyps show ?thesis by blast
  qed
qed

lemma Cons_in_star:
  "c # s \<in> star A \<longleftrightarrow> (\<exists>u v. s = u @ v \<and> c # u \<in> A \<and> v \<in> star A)"
proof
  assume "c # s \<in> star A"
  then show "\<exists>u v. s = u @ v \<and> c # u \<in> A \<and> v \<in> star A"
    using Cons_in_star_D by blast
next
  assume "\<exists>u v. s = u @ v \<and> c # u \<in> A \<and> v \<in> star A"
  then obtain u v where "s = u @ v" "c # u \<in> A" "v \<in> star A" by blast
  then show "c # s \<in> star A"
    using star.star_step [of "c # u" A v] by simp
qed

lemma lang_deriv: "s \<in> lang (deriv c r) \<longleftrightarrow> c # s \<in> lang r"
proof (induction r arbitrary: s)
  case (Seq r1 r2)
  then show ?case
    by (simp add: Cons_in_conc nullable_iff) (auto simp: conc_iff)
next
  case (Star r)
  then show ?case
    by (simp add: Cons_in_star conc_iff)
qed auto

lemma MatchString_lang: "MatchString r s \<longleftrightarrow> s \<in> lang r"
  by (induction s arbitrary: r) (simp_all add: nullable_iff lang_deriv)

lemma conc_singletons: "conc {u} {v} = {u @ v}"
  by (auto simp: conc_def)

lemma lang_Lit: "lang (Lit s) = {s}"
  by (induction s) (simp_all add: conc_singletons)

lemma lang_digit: "lang digit = {[c] | c. isDigit c}"
  by (simp add: digit_def isDigit_def)

lemma lang_upperHex: "lang upperHex = {[c] | c. isUpperHex c}"
  unfolding upperHex_def isUpperHex_def lang.simps by blast

lemma conc_class_iff:
  "s \<in> conc {[c] | c. P c} B \<longleftrightarrow> (\<exists>c v. s = c # v \<and> P c \<and> v \<in> B)"
proof
  assume "s \<in> conc {[c] | c. P c} B"
  then show "\<exists>c v. s = c # v \<and> P c \<and> v \<in> B"
    by (auto simp: conc_iff)
next
  assume "\<exists>c v. s = c # v \<and> P c \<and> v \<in> B"
  then obtain c v where "s = [c] @ v" "P c" "v \<in> B" by auto
  then show "s \<in> conc {[c] | c. P c} B"
    unfolding conc_iff by blast
qed

lemma conc_single_iff: "s \<in> conc {w} B \<longleftrightarrow> (\<exists>v. s = w @ v \<and> v \<in> B)"
  by (auto simp: conc_iff)

lemma lang_Times_class:
  assumes "lang r = {[c] | c. P c}"
  shows "lang (Times n r) = {s. length s = n \<and> list_all P s}"
proof (induction n)
  case 0
  then show ?case by auto
next
  case (Suc n)
  show ?case
  proof (rule set_eqI)
    fix s
    have "s \<in> lang (Times (Suc n) r) \<longleftrightarrow>
            s \<in> conc {[c] | c. P c} {s. length s = n \<and> list_all P s}"
      by (simp only: Times.simps lang.simps assms Suc)
    also have "\<dots> \<longleftrightarrow> (\<exists>c v. s = c # v \<and> P c \<and> v \<in> {s. length s = n \<and> list_all P s})"
      by (rule conc_class_iff)
    also have "\<dots> \<longleftrightarrow> s \<in> {s. length s = Suc n \<and> list_all P s}"
      by (cases s) auto
    finally show "s \<in> lang (Times (Suc n) r) \<longleftrightarrow> s \<in> {s. length s = Suc n \<and> list_all P s}" .
  qed
qed

lemma star_class:
  assumes "A = {[c] | c. P c}"
  shows "star A = {s. list_all P s}"
proof (rule set_eqI)
  fix s
  have "s \<in> star A \<Longrightarrow> list_all P s"
    by (induction rule: star.induct) (auto simp: assms)
  moreover have "list_all P s \<Longrightarrow> s \<in> star A"
  proof (induction s)
    case Nil
    then show ?case by (simp add: star.star_nil)
  next
    case (Cons c s)
    then have "[c] \<in> A" and "s \<in> star A" by (simp_all add: assms)
    then show ?case using star.star_step [of "[c]" A s] by simp
  qed
  ultimately show "s \<in> star A \<longleftrightarrow> s \<in> {s. list_all P s}" by blast
qed

lemma lang_Plus_class:
  assumes "lang r = {[c] | c. P c}"
  shows "lang (Plus r) = {s. s \<noteq> [] \<and> list_all P s}"
proof (rule set_eqI)
  fix s
  have "s \<in> lang (Plus r) \<longleftrightarrow> s \<in> conc {[c] | c. P c} {s. list_all P s}"
    by (simp only: Plus_def lang.simps assms star_class [OF refl])
  also have "\<dots> \<longleftrightarrow> (\<exists>c v. s = c # v \<and> P c \<and> v \<in> {s. list_all P s})"
    by (rule conc_class_iff)
  also have "\<dots> \<longleftrightarrow> s \<in> {s. s \<noteq> [] \<and> list_all P s}"
    by (cases s) auto
  finally show "s \<in> lang (Plus r) \<longleftrightarrow> s \<in> {s. s \<noteq> [] \<and> list_all P s}" .
qed

lemma conc_single_right_iff: "s \<in> conc A {w} \<longleftrightarrow> (\<exists>u. s = u @ w \<and> u \<in> A)"
  by (auto simp: conc_iff)

lemmas lang_classes =
  lang_Times_class [OF lang_digit] lang_Times_class [OF lang_upperHex]
  lang_Plus_class [OF lang_digit]

lemma lang_regStrV1:
  "s \<in> lang regStrV1 \<longleftrightarrow>
     (\<exists>ordinal pubKey bitLength.
        s = ordinal @ ''_'' @ pubKey @ ''_'' @ bitLength @ ''.MASSDB'' \<and>
        ordinal \<noteq> [] \<and> list_all isDigit ordinal \<and>
        length pubKey = 66 \<and> list_all isUpperHex pubKey \<and>
        length bitLength = 2 \<and> list_all isDigit bitLength)"
proof -
  have "s \<in> lang regStrV1 \<longleftrightarrow>
     (\<exists>u v. s = u @ v \<and> u \<in> {s. s \<noteq> [] \<and> list_all isDigit s} \<and>
       (\<exists>v1. v = ''_'' @ v1 \<and>
         (\<exists>k v2. v1 = k @ v2 \<and> k \<in> {s. length s = 66 \<and> list_all isUpperHex s} \<and>
           (\<exists>v3. v2 = ''_'' @ v3 \<and>
             (\<exists>b. v3 = b @ ''.MASSDB'' \<and> b \<in> {s. length s = 2 \<and> list_all isDigit s})))))"
    unfolding regStrV1_def lang.simps lang_classes lang_Lit
    by (simp only: conc_single_iff conc_single_right_iff conc_iff [of _ "{s. s \<noteq> [] \<and> list_all isDigit s}"]
         conc_iff [of _ "{s. length s = 66 \<and> list_all isUpperHex s}"])
  also have "\<dots> \<longleftrightarrow> (\<exists>ordinal pubKey bitLength.
        s = ordinal @ ''_'' @ pubKey @ ''_'' @ bitLength @ ''.MASSDB'' \<and>
        ordinal \<noteq> [] \<and> list_all isDigit ordinal \<and>
        length pubKey = 66 \<and> list_all isUpperHex pubKey \<and>
        length bitLength = 2 \<and> list_all isDigit bitLength)"
    unfolding mem_Collect_eq by blast
  finally show ?thesis .
qed

lemma Times4: "Times 4 r = Seq r (Seq r (Seq r (Seq r Eps)))"
  by (simp add: eval_nat_numeral)

lemma conc_assoc: "conc (conc A B) C = conc A (conc B C)"
proof (rule set_eqI)
  fix s
  show "s \<in> conc (conc A B) C \<longleftrightarrow> s \<in> conc A (conc B C)"
    unfolding conc_iff by (metis append_assoc)
qed

lemma conc_Nil_left: "conc {[]} C = C"
  by (auto simp: conc_def)

lemma lang_regStrV2:
  "s \<in> lang regStrV2 \<longleftrightarrow>
     (\<exists>k a b c d e plotId.
        s = ''PLOT-K'' @ k @ ''-'' @ a @ ''-'' @ b @ ''-'' @ c @ ''-'' @ d @ ''-'' @ e @ ''-''
              @ plotId @ ''.PLOT'' \<and>
        length k = 2 \<and> list_all isDigit k \<and>
        length a = 4 \<and> list_all isDigit a \<and>
        length b = 2 \<and> list_all isDigit b \<and>
        length c = 2 \<and> list_all isDigit c \<and>
        length d = 2 \<and> list_all isDigit d \<and>
        length e = 2 \<and> list_all isDigit e \<and>
        length plotId = 64 \<and> list_all isUpperHex plotId)"
proof -
  have "s \<in> lang regStrV2 \<longleftrightarrow>
     (\<exists>v0. s = ''PLOT-K'' @ v0 \<and>
       (\<exists>k v1. v0 = k @ v1 \<and> k \<in> {s. length s = 2 \<and> list_all isDigit s} \<and>
         (\<exists>v2. v1 = ''-'' @ v2 \<and>
           (\<exists>a v3. v2 = a @ v3 \<and> a \<in> {s. length s = 4 \<and> list_all isDigit s} \<and>
             (\<exists>w4. v3 = ''-'' @ w4 \<and>
               (\<exists>b v4. w4 = b @ v4 \<and> b \<in> {s. length s = 2 \<and> list_all isDigit s} \<and>
             (\<exists>w5. v4 = ''-'' @ w5 \<and>
               (\<exists>c v5. w5 = c @ v5 \<and> c \<in> {s. length s = 2 \<and> list_all isDigit s} \<and>
             (\<exists>w6. v5 = ''-'' @ w6 \<and>
               (\<exists>d v6. w6 = d @ v6 \<and> d \<in> {s. length s = 2 \<and> list_all isDigit s} \<and>
             (\<exists>w7. v6 = ''-'' @ w7 \<and>
               (\<exists>e v7. w7 = e @ v7 \<and> e \<in> {s. length s = 2 \<and> list_all isDigit s} \<and>
                 (\<exists>v9. v7 = ''-'' @ v9 \<and>
                   (\<exists>plotId. v9 = plotId @ ''.PLOT'' \<and>
                      plotId \<in> {s. length s = 64 \<and> list_all isUpperHex s}))))))))))))))"
    unfolding regStrV2_def Times4 [of "Seq (Chr CHR ''-'') (Times 2 digit)"]
    unfolding lang.simps lang_classes lang_Lit
    unfolding conc_assoc conc_Nil_left
    by (simp only: conc_single_iff conc_single_right_iff
         conc_iff [of _ "{s. length s = 2 \<and> list_all isDigit s}"]
         conc_iff [of _ "{s. length s = 4 \<and> list_all isDigit s}"])
  also have "\<dots> \<longleftrightarrow> (\<exists>k a b c d e plotId.
        s = ''PLOT-K'' @ k @ ''-'' @ a @ ''-'' @ b @ ''-'' @ c @ ''-'' @ d @ ''-'' @ e @ ''-''
              @ plotId @ ''.PLOT'' \<and>
        length k = 2 \<and> list_all isDigit k \<and>
        length a = 4 \<and> list_all isDigit a \<and>
        length b = 2 \<and> list_all isDigit b \<and>
        length c = 2 \<and> list_all isDigit c \<and>
        length d = 2 \<and> list_all isDigit d \<and>
        length e = 2 \<and> list_all isDigit e \<and>
        length plotId = 64 \<and> list_all isUpperHex plotId)"
    unfolding mem_Collect_eq
    apply (rule iffI)
     apply (elim exE conjE)
     apply hypsubst
     apply (intro exI conjI)
                  apply (rule refl | assumption)+
    apply (elim exE conjE)
    apply hypsubst
    apply (intro exI conjI)
                        apply (rule refl | assumption)+
    done
  finally show ?thesis .
qed


lemma HasSuffix_iff: "HasSuffix s w \<longleftrightarrow> (\<exists>u. s = u @ w)"
proof
  assume "HasSuffix s w"
  then have "s = take (length s - length w) s @ w"
    unfolding HasSuffix_def by (metis append_take_drop_id)
  then show "\<exists>u. s = u @ w" ..
next
  assume "\<exists>u. s = u @ w"
  then show "HasSuffix s w" by (auto simp: HasSuffix_def)
qed

lemma classify_V1:
  "\<not> mismatch regStrV1 suffixV1 fileName \<longleftrightarrow>
     (\<exists>ordinal pubKey bitLength.
        ToUpper fileName = ordinal @ ''_'' @ pubKey @ ''_'' @ bitLength @ ''.MASSDB'' \<and>
        ordinal \<noteq> [] \<and> list_all isDigit ordinal \<and>
        length pubKey = 66 \<and> list_all isUpperHex pubKey \<and>
        length bitLength = 2 \<and> list_all isDigit bitLength)"
proof -
  have "ToUpper fileName \<in> lang regStrV1 \<Longrightarrow> HasSuffix (ToUpper fileName) suffixV1"
  proof -
    assume "ToUpper fileName \<in> lang regStrV1"
    then obtain ordinal pubKey bitLength where
      "ToUpper fileName = ordinal @ ''_'' @ pubKey @ ''_'' @ bitLength @ ''.MASSDB''"
      unfolding lang_regStrV1 by blast
    then have "ToUpper fileName = (ordinal @ ''_'' @ pubKey @ ''_'' @ bitLength) @ suffixV1"
      by (simp add: suffixV1_def)
    then show ?thesis unfolding HasSuffix_iff ..
  qed
  then have "\<not> mismatch regStrV1 suffixV1 fileName \<longleftrightarrow> ToUpper fileName \<in> lang regStrV1"
    unfolding mismatch_def MatchString_lang by blast
  then show ?thesis unfolding lang_regStrV1 .
qed

lemma classify_V2:
  "\<not> mismatch regStrV2 suffixV2 fileName \<longleftrightarrow>
     (\<exists>k a b c d e plotId.
        ToUpper fileName = ''PLOT-K'' @ k @ ''-'' @ a @ ''-'' @ b @ ''-'' @ c @ ''-'' @ d @ ''-''
              @ e @ ''-'' @ plotId @ ''.PLOT'' \<and>
        length k = 2 \<and> list_all isDigit k \<and>
        length a = 4 \<and> list_all isDigit a \<and>
        length b = 2 \<and> list_all isDigit b \<and>
        length c = 2 \<and> list_all isDigit c \<and>
        length d = 2 \<and> list_all isDigit d \<and>
        length e = 2 \<and> list_all isDigit e \<and>
        length plotId = 64 \<and> list_all isUpperHex plotId)"
proof -
  have "ToUpper fileName \<in> lang regStrV2 \<Longrightarrow> HasSuffix (ToUpper fileName) suffixV2"
  proof -
    assume "ToUpper fileName \<in> lang regStrV2"
    then obtain k a b c d e plotId where
      "ToUpper fileName = ''PLOT-K'' @ k @ ''-'' @ a @ ''-'' @ b @ ''-'' @ c @ ''-'' @ d @ ''-''
              @ e @ ''-'' @ plotId @ ''.PLOT''"
      unfolding lang_regStrV2 by (elim exE conjE)
    then have "ToUpper fileName =
        (''PLOT-K'' @ k @ ''-'' @ a @ ''-'' @ b @ ''-'' @ c @ ''-'' @ d @ ''-'' @ e @ ''-'' @ plotId)
          @ suffixV2"
      by (simp add: suffixV2_def)
    then show ?thesis unfolding HasSuffix_iff ..
  qed
  then have "\<not> mismatch regStrV2 suffixV2 fileName \<longleftrightarrow> ToUpper fileName \<in> lang regStrV2"
    unfolding mismatch_def MatchString_lang by blast
  then show ?thesis unfolding lang_regStrV2 .
qed

section \<open>The scanning loops\<close>

lemma fst_emit: "fst (emit es m) = es @ fst m"
  by (simp add: emit_def)

lemma snd_emit: "snd (emit es m) = snd m"
  by (simp add: emit_def)

lemma filesV1_cancel:
  "Select True \<in> set (fst (filesV1 env all dbDir fis polls plots n)) \<Longrightarrow>
   snd (filesV1 env all dbDir fis polls plots n) = Inl ([], None)"
  by (induction fis arbitrary: polls plots n)
     (auto simp: fst_emit snd_emit split: if_splits sum.splits)

lemma dirsV1_cancel:
  "Select True \<in> set (fst (dirsV1 env all dirs polls plots n)) \<Longrightarrow>
   snd (dirsV1 env all dirs polls plots n) = Inl ([], None)"
proof (induction dirs arbitrary: polls plots n)
  case Nil
  then show ?case by simp
next
  case (Cons d ds)
  show ?case
  proof (cases "ioutil_ReadDir env d")
    case (Inl e)
    with Cons.prems show ?thesis by (simp add: fst_emit)
  next
    case (Inr fs)
    obtain es r where f: "filesV1 env all d fs polls plots 0 = (es, r)"
      by (cases "filesV1 env all d fs polls plots 0")
    show ?thesis
    proof (cases r)
      case (Inl ret)
      with Cons.prems Inr f filesV1_cancel [of env all d fs polls plots 0]
      show ?thesis by (simp add: fst_emit snd_emit)
    next
      case r: (Inr st)
      obtain polls' plots' k where st: "st = (polls', plots', k)" by (cases st)
      from Cons.prems Inr f r st filesV1_cancel [of env all d fs polls plots 0]
      have "Select True \<in> set (fst (dirsV1 env all ds polls' plots' (n + k)))"
        by (auto simp: fst_emit snd_emit)
      from Cons.IH [OF this] Inr f r st show ?thesis
        by (simp add: fst_emit snd_emit)
    qed
  qed
qed

lemma V1_cancel:
  "Select True \<in> set (fst (getOfflineBindingListV1 env dirs all)) \<Longrightarrow>
   snd (getOfflineBindingListV1 env dirs all) = ([], None)"
  using dirsV1_cancel [of env all dirs 0 "[]" 0]
  by (auto simp: getOfflineBindingListV1_def split: prod.splits sum.splits)


lemma last_emit: "fst m \<noteq> [] \<Longrightarrow> last (fst (emit es m)) = last (fst m)"
  by (simp add: emit_def)

lemma filesV1_derive:
  "CallGetMassDBBindingTarget pk bl \<in> set (fst (filesV1 env all dbDir fis polls plots n)) \<Longrightarrow>
   GetMassDBBindingTarget env pk bl = Inl e \<Longrightarrow>
   snd (filesV1 env all dbDir fis polls plots n) = Inl ([], Some e) \<and>
   last (fst (filesV1 env all dbDir fis polls plots n)) = CallGetMassDBBindingTarget pk bl"
proof (induction fis arbitrary: polls plots n)
  case Nil
  then show ?case by simp
next
  case (Cons f fs)
  from Cons.prems have ni: "\<not> interruptCh env polls"
    by (auto split: if_splits)
  show ?case
  proof (cases "mismatch regStrV1 suffixV1 f")
    case True
    with Cons.prems ni
    have "CallGetMassDBBindingTarget pk bl \<in> set (fst (filesV1 env all dbDir fs (Suc polls) plots n))"
      by (simp add: fst_emit)
    from Cons.IH [OF this Cons.prems(2)] True ni this show ?thesis
      by (auto simp: fst_emit snd_emit last_emit)
  next
    case False
    show ?thesis
    proof (cases "NewMassDBInfoV1FromFile env (Join dbDir f)")
      case (Inl err)
      with Cons.prems ni False
      have "CallGetMassDBBindingTarget pk bl \<in> set (fst (filesV1 env all dbDir fs (Suc polls) plots n))"
        by (simp add: fst_emit)
      from Cons.IH [OF this Cons.prems(2)] False Inl ni this show ?thesis
        by (auto simp: fst_emit snd_emit last_emit)
    next
      case (Inr info)
      show ?thesis
      proof (cases "\<not> Plotted info \<and> \<not> all")
        case True
        with Cons.prems ni False Inr
        have "CallGetMassDBBindingTarget pk bl \<in> set (fst (filesV1 env all dbDir fs (Suc polls) plots n))"
          by (simp add: fst_emit)
        from Cons.IH [OF this Cons.prems(2)] False Inr True ni this show ?thesis
          by (auto simp: fst_emit snd_emit last_emit)
      next
        case el: False
        show ?thesis
        proof (cases "GetMassDBBindingTarget env (PublicKey info) (BitLength info)")
          case bad: (Inl err)
          with Cons.prems ni False Inr el show ?thesis
            by (auto simp: fst_emit snd_emit)
        next
          case ok: (Inr target)
          let ?plots = "plots @ [\<lparr>Target = target, Type = ProofTypeDefault,
                                   Size = of_int (BitLength info)\<rparr>]"
          from Cons.prems ni False Inr el ok
          have "CallGetMassDBBindingTarget pk bl
                  \<in> set (fst (filesV1 env all dbDir fs (Suc polls) ?plots (n + 1)))"
            by (auto simp: fst_emit)
          from Cons.IH [OF this Cons.prems(2)] False Inr el ok ni this show ?thesis
            by (auto simp: fst_emit snd_emit last_emit)
        qed
      qed
    qed
  qed
qed


lemma filesV1_nonempty:
  "snd (filesV1 env all dbDir fis polls plots n) = Inl ret \<Longrightarrow>
   fst (filesV1 env all dbDir fis polls plots n) \<noteq> []"
  by (cases fis) (auto simp: fst_emit)

lemma dirsV1_derive:
  "CallGetMassDBBindingTarget pk bl \<in> set (fst (dirsV1 env all dirs polls plots n)) \<Longrightarrow>
   GetMassDBBindingTarget env pk bl = Inl e \<Longrightarrow>
   snd (dirsV1 env all dirs polls plots n) = Inl ([], Some e) \<and>
   last (fst (dirsV1 env all dirs polls plots n)) = CallGetMassDBBindingTarget pk bl"
proof (induction dirs arbitrary: polls plots n)
  case Nil
  then show ?case by simp
next
  case (Cons d ds)
  show ?case
  proof (cases "ioutil_ReadDir env d")
    case (Inl e)
    with Cons.prems show ?thesis by (simp add: fst_emit)
  next
    case (Inr fs)
    obtain es r where f: "filesV1 env all d fs polls plots 0 = (es, r)"
      by (cases "filesV1 env all d fs polls plots 0")
    note fd = filesV1_derive [of pk bl env all d fs polls plots 0 e, OF _ Cons.prems(2)]
    show ?thesis
    proof (cases r)
      case (Inl ret)
      from filesV1_nonempty [of env all d fs polls plots 0 ret] f Inl have "es \<noteq> []" by simp
      with Cons.prems Inr f Inl fd show ?thesis
        by (simp add: fst_emit snd_emit)
    next
      case r: (Inr st)
      obtain polls' plots' k where st: "st = (polls', plots', k)" by (cases st)
      from Cons.prems Inr f r st fd
      have in_rest: "CallGetMassDBBindingTarget pk bl \<in> set (fst (dirsV1 env all ds polls' plots' (n + k)))"
        by (auto simp: fst_emit snd_emit)
      then have "fst (dirsV1 env all ds polls' plots' (n + k)) \<noteq> []" by auto
      with Cons.IH [OF in_rest Cons.prems(2)] Inr f r st show ?thesis
        by (simp add: fst_emit snd_emit)
    qed
  qed
qed

lemma V1_derive:
  "CallGetMassDBBindingTarget pk bl \<in> set (fst (getOfflineBindingListV1 env dirs all)) \<Longrightarrow>
   GetMassDBBindingTarget env pk bl = Inl e \<Longrightarrow>
   snd (getOfflineBindingListV1 env dirs all) = ([], Some e) \<and>
   last (fst (getOfflineBindingListV1 env dirs all)) = CallGetMassDBBindingTarget pk bl"
  using dirsV1_derive [of pk bl env all dirs 0 "[]" 0 e]
  by (auto simp: getOfflineBindingListV1_def split: prod.splits sum.splits)


lemma filesV1_parse:
  "CallNewMassDBInfoV1FromFile p \<in> set (fst (filesV1 env all dbDir fis polls plots n)) \<Longrightarrow>
   \<exists>f\<in>set fis. p = Join dbDir f \<and> \<not> mismatch regStrV1 suffixV1 f"
  by (induction fis arbitrary: polls plots n)
     (auto simp: fst_emit split: if_splits sum.splits)

lemma dirsV1_parse:
  "CallNewMassDBInfoV1FromFile p \<in> set (fst (dirsV1 env all dirs polls plots n)) \<Longrightarrow>
   \<exists>d\<in>set dirs. \<exists>fs. ioutil_ReadDir env d = Inr fs \<and>
      (\<exists>f\<in>set fs. p = Join d f \<and> \<not> mismatch regStrV1 suffixV1 f)"
proof (induction dirs arbitrary: polls plots n)
  case Nil
  then show ?case by simp
next
  case (Cons d ds)
  show ?case
  proof (cases "ioutil_ReadDir env d")
    case (Inl e)
    with Cons.prems show ?thesis by (simp add: fst_emit)
  next
    case (Inr fs)
    obtain es r where f: "filesV1 env all d fs polls plots 0 = (es, r)"
      by (cases "filesV1 env all d fs polls plots 0")
    note fp = filesV1_parse [of p env all d fs polls plots 0]
    show ?thesis
    proof (cases "CallNewMassDBInfoV1FromFile p \<in> set es")
      case True
      with fp f Inr show ?thesis by auto
    next
      case False
      show ?thesis
      proof (cases r)
        case (Inl ret)
        with Cons.prems Inr f False show ?thesis by (simp add: fst_emit)
      next
        case r: (Inr st)
        obtain polls' plots' k where st: "st = (polls', plots', k)" by (cases st)
        from Cons.prems Inr f r st False
        have "CallNewMassDBInfoV1FromFile p \<in> set (fst (dirsV1 env all ds polls' plots' (n + k)))"
          by (auto simp: fst_emit)
        from Cons.IH [OF this] show ?thesis by auto
      qed
    qed
  qed
qed

lemma V1_parse:
  "CallNewMassDBInfoV1FromFile p \<in> set (fst (getOfflineBindingListV1 env dirs all)) \<Longrightarrow>
   \<exists>d\<in>set dirs. \<exists>fs. ioutil_ReadDir env d = Inr fs \<and>
      (\<exists>f\<in>set fs. p = Join d f \<and> \<not> mismatch regStrV1 suffixV1 f)"
  using dirsV1_parse [of p env all dirs 0 "[]" 0]
  by (auto simp: getOfflineBindingListV1_def split: prod.splits sum.splits)

lemma map_filter_Cons:
  "List.map_filter f (x # xs) = (case f x of None \<Rightarrow> List.map_filter f xs | Some y \<Rightarrow> y # List.map_filter f xs)"
  by (simp add: List.map_filter_def split: option.splits)

lemma filesV1_quiet:
  assumes "\<forall>k. \<not> interruptCh env k"
  shows "(\<forall>info\<in>set (List.map_filter (headerV1 env dbDir) fis). Plotted info \<or> all \<longrightarrow>
            (\<exists>t. GetMassDBBindingTarget env (PublicKey info) (BitLength info) = Inr t)) \<Longrightarrow>
         snd (filesV1 env all dbDir fis polls plots n) =
           Inr (polls + length fis,
                plots @ map (plotV1 env)
                  (filter (\<lambda>info. Plotted info \<or> all) (List.map_filter (headerV1 env dbDir) fis)),
                n + int (length (filter (\<lambda>info. Plotted info \<or> all)
                  (List.map_filter (headerV1 env dbDir) fis))))"
proof (induction fis arbitrary: polls plots n)
  case Nil
  then show ?case by (simp add: List.map_filter_def)
next
  case (Cons f fs)
  have ni: "\<not> interruptCh env polls" using assms by simp
  show ?case
  proof (cases "headerV1 env dbDir f")
    case None
    with Cons.prems have "\<forall>info\<in>set (List.map_filter (headerV1 env dbDir) fs). Plotted info \<or> all \<longrightarrow>
            (\<exists>t. GetMassDBBindingTarget env (PublicKey info) (BitLength info) = Inr t)"
      by (simp add: map_filter_Cons)
    from Cons.IH [OF this] None ni show ?thesis
      by (auto simp: headerV1_def snd_emit map_filter_Cons split: if_splits sum.splits)
  next
    case (Some info)
    with Cons.prems have rest: "\<forall>info\<in>set (List.map_filter (headerV1 env dbDir) fs). Plotted info \<or> all \<longrightarrow>
            (\<exists>t. GetMassDBBindingTarget env (PublicKey info) (BitLength info) = Inr t)"
      and this_one: "Plotted info \<or> all \<longrightarrow>
            (\<exists>t. GetMassDBBindingTarget env (PublicKey info) (BitLength info) = Inr t)"
      by (simp_all add: map_filter_Cons)
    from Some have nm: "\<not> mismatch regStrV1 suffixV1 f"
      and parse: "NewMassDBInfoV1FromFile env (Join dbDir f) = Inr info"
      by (auto simp: headerV1_def split: if_splits sum.splits)
    show ?thesis
    proof (cases "Plotted info \<or> all")
      case False
      with Cons.IH [OF rest] Some ni nm parse show ?thesis
        by (simp add: snd_emit map_filter_Cons)
    next
      case True
      with this_one obtain t where t: "GetMassDBBindingTarget env (PublicKey info) (BitLength info) = Inr t"
        by blast
      from Cons.IH [OF rest] Some ni nm parse True t show ?thesis
        by (auto simp: snd_emit map_filter_Cons plotV1_def)
    qed
  qed
qed


lemma dirsV1_quiet:
  assumes "\<forall>k. \<not> interruptCh env k"
  shows "(\<forall>d\<in>set dirs. \<exists>fs. ioutil_ReadDir env d = Inr fs) \<Longrightarrow>
         (\<forall>info\<in>set (concat (map (headersV1 env) dirs)). Plotted info \<or> all \<longrightarrow>
            (\<exists>t. GetMassDBBindingTarget env (PublicKey info) (BitLength info) = Inr t)) \<Longrightarrow>
         snd (dirsV1 env all dirs polls plots n) =
           Inr (plots @ map (plotV1 env)
                  (filter (\<lambda>info. Plotted info \<or> all) (concat (map (headersV1 env) dirs))),
                n + int (length (filter (\<lambda>info. Plotted info \<or> all)
                  (concat (map (headersV1 env) dirs)))))"
proof (induction dirs arbitrary: polls plots n)
  case Nil
  then show ?case by simp
next
  case (Cons d ds)
  from Cons.prems(1) obtain fs where fs: "ioutil_ReadDir env d = Inr fs" by auto
  then have hd: "headersV1 env d = List.map_filter (headerV1 env d) fs"
    by (simp add: headersV1_def)
  from Cons.prems(2) hd
  have here: "\<forall>info\<in>set (List.map_filter (headerV1 env d) fs). Plotted info \<or> all \<longrightarrow>
            (\<exists>t. GetMassDBBindingTarget env (PublicKey info) (BitLength info) = Inr t)"
    by simp
  from Cons.prems have rest1: "\<forall>d\<in>set ds. \<exists>fs. ioutil_ReadDir env d = Inr fs"
    and rest2: "\<forall>info\<in>set (concat (map (headersV1 env) ds)). Plotted info \<or> all \<longrightarrow>
            (\<exists>t. GetMassDBBindingTarget env (PublicKey info) (BitLength info) = Inr t)"
    by simp_all
  obtain es r where f: "filesV1 env all d fs polls plots 0 = (es, r)"
    by (cases "filesV1 env all d fs polls plots 0")
  from filesV1_quiet [OF assms here, of polls plots 0] f
  have r: "r = Inr (polls + length fs,
                plots @ map (plotV1 env)
                  (filter (\<lambda>info. Plotted info \<or> all) (List.map_filter (headerV1 env d) fs)),
                int (length (filter (\<lambda>info. Plotted info \<or> all)
                  (List.map_filter (headerV1 env d) fs))))"
    by simp
  show ?case
    using Cons.IH [OF rest1 rest2] fs f r hd
    by (simp add: snd_emit)
qed

lemma V1_quiet:
  assumes "\<forall>k. \<not> interruptCh env k"
    and "\<forall>d\<in>set dirs. \<exists>fs. ioutil_ReadDir env d = Inr fs"
    and "\<forall>info\<in>set (concat (map (headersV1 env) dirs)). Plotted info \<or> all \<longrightarrow>
            (\<exists>t. GetMassDBBindingTarget env (PublicKey info) (BitLength info) = Inr t)"
  shows "snd (getOfflineBindingListV1 env dirs all) =
           (map (plotV1 env)
              (filter (\<lambda>info. Plotted info \<or> all) (concat (map (headersV1 env) dirs))), None)"
  using dirsV1_quiet [OF assms, of 0 "[]" 0]
  by (auto simp: getOfflineBindingListV1_def split: prod.splits sum.splits)

lemma filesV2_cancel:
  "Select True \<in> set (fst (filesV2 env keystore dbDir fis polls plots n)) \<Longrightarrow>
   snd (filesV2 env keystore dbDir fis polls plots n) = Inl ([], None)"
  by (induction fis arbitrary: polls plots n)
     (auto simp: fst_emit snd_emit split: if_splits sum.splits)

lemma dirsV2_cancel:
  "Select True \<in> set (fst (dirsV2 env keystore dirs polls plots n)) \<Longrightarrow>
   snd (dirsV2 env keystore dirs polls plots n) = Inl ([], None)"
proof (induction dirs arbitrary: polls plots n)
  case Nil
  then show ?case by simp
next
  case (Cons d ds)
  show ?case
  proof (cases "ioutil_ReadDir env d")
    case (Inl e)
    with Cons.prems show ?thesis by (simp add: fst_emit)
  next
    case (Inr fs)
    obtain es r where f: "filesV2 env keystore d fs polls plots 0 = (es, r)"
      by (cases "filesV2 env keystore d fs polls plots 0")
    show ?thesis
    proof (cases r)
      case (Inl ret)
      with Cons.prems Inr f filesV2_cancel [of env keystore d fs polls plots 0]
      show ?thesis by (simp add: fst_emit snd_emit)
    next
      case r: (Inr st)
      obtain polls' plots' k where st: "st = (polls', plots', k)" by (cases st)
      from Cons.prems Inr f r st filesV2_cancel [of env keystore d fs polls plots 0]
      have "Select True \<in> set (fst (dirsV2 env keystore ds polls' plots' (n + k)))"
        by (auto simp: fst_emit snd_emit)
      from Cons.IH [OF this] Inr f r st show ?thesis
        by (simp add: fst_emit snd_emit)
    qed
  qed
qed

lemma scanV2_cancel:
  "Select True \<in> set (fst (scanV2 env dirs keystore err)) \<Longrightarrow>
   snd (scanV2 env dirs keystore err) = ([], None)"
  using dirsV2_cancel [of env keystore dirs 0 "[]" 0]
  by (auto simp: scanV2_def split: prod.splits sum.splits)


lemma filesV2_derive:
  "CallGetChiaPlotBindingTarget pk bl \<in> set (fst (filesV2 env keystore dbDir fis polls plots n)) \<Longrightarrow>
   GetChiaPlotBindingTarget env pk bl = Inl e \<Longrightarrow>
   snd (filesV2 env keystore dbDir fis polls plots n) = Inl ([], Some e) \<and>
   last (fst (filesV2 env keystore dbDir fis polls plots n)) = CallGetChiaPlotBindingTarget pk bl"
proof (induction fis arbitrary: polls plots n)
  case Nil
  then show ?case by simp
next
  case (Cons f fs)
  from Cons.prems have ni: "\<not> interruptCh env polls"
    by (auto split: if_splits)
  show ?case
  proof (cases "mismatch regStrV2 suffixV2 f")
    case True
    with Cons.prems ni
    have "CallGetChiaPlotBindingTarget pk bl \<in> set (fst (filesV2 env keystore dbDir fs (Suc polls) plots n))"
      by (simp add: fst_emit)
    from Cons.IH [OF this Cons.prems(2)] True ni this show ?thesis
      by (auto simp: fst_emit snd_emit last_emit)
  next
    case False
    show ?thesis
    proof (cases "NewMassDBInfoV2FromFile env (Join dbDir f)")
      case (Inl err)
      with Cons.prems ni False
      have "CallGetChiaPlotBindingTarget pk bl \<in> set (fst (filesV2 env keystore dbDir fs (Suc polls) plots n))"
        by (simp add: fst_emit)
      from Cons.IH [OF this Cons.prems(2)] False Inl ni this show ?thesis
        by (auto simp: fst_emit snd_emit last_emit)
    next
      case (Inr info)
      show ?thesis
      proof (cases "\<not> ownablePlot keystore info")
        case True
        with Cons.prems ni False Inr
        have "CallGetChiaPlotBindingTarget pk bl \<in> set (fst (filesV2 env keystore dbDir fs (Suc polls) plots n))"
          by (simp add: fst_emit)
        from Cons.IH [OF this Cons.prems(2)] False Inr True ni this show ?thesis
          by (auto simp: fst_emit snd_emit last_emit)
      next
        case el: False
        show ?thesis
        proof (cases "GetChiaPlotBindingTarget env (PlotID info) (K info)")
          case bad: (Inl err)
          with Cons.prems ni False Inr el show ?thesis
            by (auto simp: fst_emit snd_emit)
        next
          case ok: (Inr target)
          let ?plots = "plots @ [\<lparr>Target = target, Type = ProofTypeChia,
                                   Size = of_int (K info)\<rparr>]"
          from Cons.prems ni False Inr el ok
          have "CallGetChiaPlotBindingTarget pk bl
                  \<in> set (fst (filesV2 env keystore dbDir fs (Suc polls) ?plots (n + 1)))"
            by (auto simp: fst_emit)
          from Cons.IH [OF this Cons.prems(2)] False Inr el ok ni this show ?thesis
            by (auto simp: fst_emit snd_emit last_emit)
        qed
      qed
    qed
  qed
qed


lemma filesV2_nonempty:
  "snd (filesV2 env keystore dbDir fis polls plots n) = Inl ret \<Longrightarrow>
   fst (filesV2 env keystore dbDir fis polls plots n) \<noteq> []"
  by (cases fis) (auto simp: fst_emit)

lemma dirsV2_derive:
  "CallGetChiaPlotBindingTarget pk bl \<in> set (fst (dirsV2 env keystore dirs polls plots n)) \<Longrightarrow>
   GetChiaPlotBindingTarget env pk bl = Inl e \<Longrightarrow>
   snd (dirsV2 env keystore dirs polls plots n) = Inl ([], Some e) \<and>
   last (fst (dirsV2 env keystore dirs polls plots n)) = CallGetChiaPlotBindingTarget pk bl"
proof (induction dirs arbitrary: polls plots n)
  case Nil
  then show ?case by simp
next
  case (Cons d ds)
  show ?case
  proof (cases "ioutil_ReadDir env d")
    case (Inl e)
    with Cons.prems show ?thesis by (simp add: fst_emit)
  next
    case (Inr fs)
    obtain es r where f: "filesV2 env keystore d fs polls plots 0 = (es, r)"
      by (cases "filesV2 env keystore d fs polls plots 0")
    note fd = filesV2_derive [of pk bl env keystore d fs polls plots 0 e, OF _ Cons.prems(2)]
    show ?thesis
    proof (cases r)
      case (Inl ret)
      from filesV2_nonempty [of env keystore d fs polls plots 0 ret] f Inl have "es \<noteq> []" by simp
      with Cons.prems Inr f Inl fd show ?thesis
        by (simp add: fst_emit snd_emit)
    next
      case r: (Inr st)
      obtain polls' plots' k where st: "st = (polls', plots', k)" by (cases st)
      from Cons.prems Inr f r st fd
      have in_rest: "CallGetChiaPlotBindingTarget pk bl \<in> set (fst (dirsV2 env keystore ds polls' plots' (n + k)))"
        by (auto simp: fst_emit snd_emit)
      then have "fst (dirsV2 env keystore ds polls' plots' (n + k)) \<noteq> []" by auto
      with Cons.IH [OF in_rest Cons.prems(2)] Inr f r st show ?thesis
        by (simp add: fst_emit snd_emit)
    qed
  qed
qed

lemma scanV2_derive:
  "CallGetChiaPlotBindingTarget pk bl \<in> set (fst (scanV2 env dirs keystore err)) \<Longrightarrow>
   GetChiaPlotBindingTarget env pk bl = Inl e \<Longrightarrow>
   snd (scanV2 env dirs keystore err) = ([], Some e) \<and>
   last (fst (scanV2 env dirs keystore err)) = CallGetChiaPlotBindingTarget pk bl"
  using dirsV2_derive [of pk bl env keystore dirs 0 "[]" 0 e]
  by (auto simp: scanV2_def split: prod.splits sum.splits)


lemma filesV2_parse:
  "CallNewMassDBInfoV2FromFile p \<in> set (fst (filesV2 env keystore dbDir fis polls plots n)) \<Longrightarrow>
   \<exists>f\<in>set fis. p = Join dbDir f \<and> \<not> mismatch regStrV2 suffixV2 f"
  by (induction fis arbitrary: polls plots n)
     (auto simp: fst_emit split: if_splits sum.splits)

lemma dirsV2_parse:
  "CallNewMassDBInfoV2FromFile p \<in> set (fst (dirsV2 env keystore dirs polls plots n)) \<Longrightarrow>
   \<exists>d\<in>set dirs. \<exists>fs. ioutil_ReadDir env d = Inr fs \<and>
      (\<exists>f\<in>set fs. p = Join d f \<and> \<not> mismatch regStrV2 suffixV2 f)"
proof (induction dirs arbitrary: polls plots n)
  case Nil
  then show ?case by simp
next
  case (Cons d ds)
  show ?case
  proof (cases "ioutil_ReadDir env d")
    case (Inl e)
    with Cons.prems show ?thesis by (simp add: fst_emit)
  next
    case (Inr fs)
    obtain es r where f: "filesV2 env keystore d fs polls plots 0 = (es, r)"
      by (cases "filesV2 env keystore d fs polls plots 0")
    note fp = filesV2_parse [of p env keystore d fs polls plots 0]
    show ?thesis
    proof (cases "CallNewMassDBInfoV2FromFile p \<in> set es")
      case True
      with fp f Inr show ?thesis by auto
    next
      case False
      show ?thesis
      proof (cases r)
        case (Inl ret)
        with Cons.prems Inr f False show ?thesis by (simp add: fst_emit)
      next
        case r: (Inr st)
        obtain polls' plots' k where st: "st = (polls', plots', k)" by (cases st)
        from Cons.prems Inr f r st False
        have "CallNewMassDBInfoV2FromFile p \<in> set (fst (dirsV2 env keystore ds polls' plots' (n + k)))"
          by (auto simp: fst_emit)
        from Cons.IH [OF this] show ?thesis by auto
      qed
    qed
  qed
qed

lemma scanV2_parse:
  "CallNewMassDBInfoV2FromFile p \<in> set (fst (scanV2 env dirs keystore err)) \<Longrightarrow>
   \<exists>d\<in>set dirs. \<exists>fs. ioutil_ReadDir env d = Inr fs \<and>
      (\<exists>f\<in>set fs. p = Join d f \<and> \<not> mismatch regStrV2 suffixV2 f)"
  using dirsV2_parse [of p env keystore dirs 0 "[]" 0]
  by (auto simp: scanV2_def split: prod.splits sum.splits)

lemma filesV2_quiet:
  assumes "\<forall>k. \<not> interruptCh env k"
  shows "(\<forall>info\<in>set (List.map_filter (headerV2 env dbDir) fis). ownablePlot keystore info \<longrightarrow>
            (\<exists>t. GetChiaPlotBindingTarget env (PlotID info) (K info) = Inr t)) \<Longrightarrow>
         snd (filesV2 env keystore dbDir fis polls plots n) =
           Inr (polls + length fis,
                plots @ map (plotV2 env)
                  (filter (ownablePlot keystore) (List.map_filter (headerV2 env dbDir) fis)),
                n + int (length (filter (ownablePlot keystore)
                  (List.map_filter (headerV2 env dbDir) fis))))"
proof (induction fis arbitrary: polls plots n)
  case Nil
  then show ?case by (simp add: List.map_filter_def)
next
  case (Cons f fs)
  have ni: "\<not> interruptCh env polls" using assms by simp
  show ?case
  proof (cases "headerV2 env dbDir f")
    case None
    with Cons.prems have "\<forall>info\<in>set (List.map_filter (headerV2 env dbDir) fs). ownablePlot keystore info \<longrightarrow>
            (\<exists>t. GetChiaPlotBindingTarget env (PlotID info) (K info) = Inr t)"
      by (simp add: map_filter_Cons)
    from Cons.IH [OF this] None ni show ?thesis
      by (auto simp: headerV2_def snd_emit map_filter_Cons split: if_splits sum.splits)
  next
    case (Some info)
    with Cons.prems have rest: "\<forall>info\<in>set (List.map_filter (headerV2 env dbDir) fs). ownablePlot keystore info \<longrightarrow>
            (\<exists>t. GetChiaPlotBindingTarget env (PlotID info) (K info) = Inr t)"
      and this_one: "ownablePlot keystore info \<longrightarrow>
            (\<exists>t. GetChiaPlotBindingTarget env (PlotID info) (K info) = Inr t)"
      by (simp_all add: map_filter_Cons)
    from Some have nm: "\<not> mismatch regStrV2 suffixV2 f"
      and parse: "NewMassDBInfoV2FromFile env (Join dbDir f) = Inr info"
      by (auto simp: headerV2_def split: if_splits sum.splits)
    show ?thesis
    proof (cases "ownablePlot keystore info")
      case False
      with Cons.IH [OF rest] Some ni nm parse show ?thesis
        by (simp add: snd_emit map_filter_Cons)
    next
      case True
      with this_one obtain t where t: "GetChiaPlotBindingTarget env (PlotID info) (K info) = Inr t"
        by blast
      from Cons.IH [OF rest] Some ni nm parse True t show ?thesis
        by (auto simp: snd_emit map_filter_Cons plotV2_def)
    qed
  qed
qed


lemma dirsV2_quiet:
  assumes "\<forall>k. \<not> interruptCh env k"
  shows "(\<forall>d\<in>set dirs. \<exists>fs. ioutil_ReadDir env d = Inr fs) \<Longrightarrow>
         (\<forall>info\<in>set (concat (map (headersV2 env) dirs)). ownablePlot keystore info \<longrightarrow>
            (\<exists>t. GetChiaPlotBindingTarget env (PlotID info) (K info) = Inr t)) \<Longrightarrow>
         snd (dirsV2 env keystore dirs polls plots n) =
           Inr (plots @ map (plotV2 env)
                  (filter (ownablePlot keystore) (concat (map (headersV2 env) dirs))),
                n + int (length (filter (ownablePlot keystore)
                  (concat (map (headersV2 env) dirs)))))"
proof (induction dirs arbitrary: polls plots n)
  case Nil
  then show ?case by simp
next
  case (Cons d ds)
  from Cons.prems(1) obtain fs where fs: "ioutil_ReadDir env d = Inr fs" by auto
  then have hd: "headersV2 env d = List.map_filter (headerV2 env d) fs"
    by (simp add: headersV2_def)
  from Cons.prems(2) hd
  have here: "\<forall>info\<in>set (List.map_filter (headerV2 env d) fs). ownablePlot keystore info \<longrightarrow>
            (\<exists>t. GetChiaPlotBindingTarget env (PlotID info) (K info) = Inr t)"
    by simp
  from Cons.prems have rest1: "\<forall>d\<in>set ds. \<exists>fs. ioutil_ReadDir env d = Inr fs"
    and rest2: "\<forall>info\<in>set (concat (map (headersV2 env) ds)). ownablePlot keystore info \<longrightarrow>
            (\<exists>t. GetChiaPlotBindingTarget env (PlotID info) (K info) = Inr t)"
    by simp_all
  obtain es r where f: "filesV2 env keystore d fs polls plots 0 = (es, r)"
    by (cases "filesV2 env keystore d fs polls plots 0")
  from filesV2_quiet [OF assms here, of polls plots 0] f
  have r: "r = Inr (polls + length fs,
                plots @ map (plotV2 env)
                  (filter (ownablePlot keystore) (List.map_filter (headerV2 env d) fs)),
                int (length (filter (ownablePlot keystore)
                  (List.map_filter (headerV2 env d) fs))))"
    by simp
  show ?case
    using Cons.IH [OF rest1 rest2] fs f r hd
    by (simp add: snd_emit)
qed

lemma scanV2_quiet:
  assumes "\<forall>k. \<not> interruptCh env k"
    and "\<forall>d\<in>set dirs. \<exists>fs. ioutil_ReadDir env d = Inr fs"
    and "\<forall>info\<in>set (concat (map (headersV2 env) dirs)). ownablePlot keystore info \<longrightarrow>
            (\<exists>t. GetChiaPlotBindingTarget env (PlotID info) (K info) = Inr t)"
  shows "snd (scanV2 env dirs keystore err) =
           (map (plotV2 env)
              (filter (ownablePlot keystore) (concat (map (headersV2 env) dirs))), err)"
  using dirsV2_quiet [OF assms, of 0 "[]" 0]
  by (auto simp: scanV2_def split: prod.splits sum.splits)

lemma V2_cancel:
  "Select True \<in> set (fst (getOfflineBindingListV2 env dirs all keystoreFile)) \<Longrightarrow>
   snd (getOfflineBindingListV2 env dirs all keystoreFile) = ([], None)"
  using scanV2_cancel [of env dirs None None] scanV2_cancel [of env dirs _ None]
  by (auto simp: getOfflineBindingListV2_def fst_emit snd_emit split: if_splits sum.splits)

lemma V2_derive:
  "CallGetChiaPlotBindingTarget pk bl \<in> set (fst (getOfflineBindingListV2 env dirs all keystoreFile)) \<Longrightarrow>
   GetChiaPlotBindingTarget env pk bl = Inl e \<Longrightarrow>
   snd (getOfflineBindingListV2 env dirs all keystoreFile) = ([], Some e) \<and>
   last (fst (getOfflineBindingListV2 env dirs all keystoreFile)) = CallGetChiaPlotBindingTarget pk bl"
proof (cases "keystoreFile \<noteq> []")
  case False
  assume "CallGetChiaPlotBindingTarget pk bl \<in> set (fst (getOfflineBindingListV2 env dirs all keystoreFile))"
    and "GetChiaPlotBindingTarget env pk bl = Inl e"
  with False scanV2_derive [of pk bl env dirs None None e] show ?thesis
    by (simp add: getOfflineBindingListV2_def)
next
  case True
  assume a: "CallGetChiaPlotBindingTarget pk bl \<in> set (fst (getOfflineBindingListV2 env dirs all keystoreFile))"
    and b: "GetChiaPlotBindingTarget env pk bl = Inl e"
  show ?thesis
  proof (cases "NewKeystoreFromFile env keystoreFile")
    case (Inl err)
    with True a show ?thesis by (simp add: getOfflineBindingListV2_def fst_emit)
  next
    case (Inr ks)
    with True a have in_scan: "CallGetChiaPlotBindingTarget pk bl \<in> set (fst (scanV2 env dirs (Some ks) None))"
      by (simp add: getOfflineBindingListV2_def fst_emit)
    then have "fst (scanV2 env dirs (Some ks) None) \<noteq> []" by auto
    with scanV2_derive [OF in_scan b] True Inr show ?thesis
      by (simp add: getOfflineBindingListV2_def fst_emit snd_emit)
  qed
qed

lemma V2_parse:
  "CallNewMassDBInfoV2FromFile p \<in> set (fst (getOfflineBindingListV2 env dirs all keystoreFile)) \<Longrightarrow>
   \<exists>d\<in>set dirs. \<exists>fs. ioutil_ReadDir env d = Inr fs \<and>
      (\<exists>f\<in>set fs. p = Join d f \<and> \<not> mismatch regStrV2 suffixV2 f)"
  using scanV2_parse [of p env dirs None None] scanV2_parse [of p env dirs _ None]
  by (auto simp: getOfflineBindingListV2_def fst_emit split: if_splits sum.splits)

lemma V2_quiet_keystore:
  assumes "keystoreFile \<noteq> []" and "NewKeystoreFromFile env keystoreFile = Inr ks"
  shows "getOfflineBindingListV2 env dirs all keystoreFile =
           emit [CallNewKeystoreFromFile keystoreFile] (scanV2 env dirs (Some ks) None)"
  using assms by (simp add: getOfflineBindingListV2_def)

lemma V2_quiet_none:
  "getOfflineBindingListV2 env dirs all [] = scanV2 env dirs None None"
  by (simp add: getOfflineBindingListV2_def)

lemma ownablePlot_holds:
  "ownablePlot (Some ks) info \<longleftrightarrow>
     holds (GetPoolPrivateKey ks (PoolPublicKey info)) \<and>
     holds (GetFarmerPrivateKey ks (FarmerPublicKey info))"
  "ownablePlot None info"
  by (simp_all add: ownablePlot_def holds_def split: sum.splits)

lemma ownablePlot_fun:
  "ownablePlot (Some ks) =
     (\<lambda>info. holds (GetPoolPrivateKey ks (PoolPublicKey info)) \<and>
             holds (GetFarmerPrivateKey ks (FarmerPublicKey info)))"
  "ownablePlot None = (\<lambda>info. True)"
  by (rule ext, simp add: ownablePlot_holds)+

lemma makeList_counts:
  "snd (makeList (es, plots, err) defaultCount chiaCount) = (Some list0, err') \<Longrightarrow>
   Plots list0 = plots \<and> DefaultCount list0 = defaultCount \<and> ChiaCount list0 = chiaCount \<and>
   TotalCount list0 = defaultCount + chiaCount"
  by (auto simp: makeList_def split: if_splits)

lemma getOfflineBindingList_counts:
  assumes "snd (getOfflineBindingList env g) = (Some list0, err)"
  shows "TotalCount list0 = DefaultCount list0 + ChiaCount list0 \<and>
         DefaultCount list0 + ChiaCount list0 = of_nat (length (Plots list0))"
proof -
  obtain es r where a: "absDirs env (getBindingListFlagDirectories g) = (es, r)"
    by (cases "absDirs env (getBindingListFlagDirectories g)")
  show ?thesis
  proof (cases r)
    case (Inl e)
    with a assms show ?thesis by (simp add: getOfflineBindingList_def)
  next
    case (Inr ds)
    show ?thesis
    proof (cases "getBindingListFlagPlotType g = ''m1''")
      case True
      obtain es1 plots1 err1 where
        r1: "getOfflineBindingListV1 env ds (getBindingListFlagListAll g) = (es1, plots1, err1)"
        by (cases "getOfflineBindingListV1 env ds (getBindingListFlagListAll g)") auto
      with a Inr True assms
      have "snd (makeList (es1, plots1, err1) (of_nat (length plots1)) 0) = (Some list0, err)"
        by (simp add: getOfflineBindingList_def snd_emit)
      from makeList_counts [OF this] show ?thesis by simp
    next
      case False
      show ?thesis
      proof (cases "getBindingListFlagPlotType g = ''m2''")
        case True
        obtain es1 plots1 err1 where
          r1: "getOfflineBindingListV2 env ds (getBindingListFlagListAll g)
                 (getBindingListFlagKeystore g) = (es1, plots1, err1)"
          by (cases "getOfflineBindingListV2 env ds (getBindingListFlagListAll g)
                 (getBindingListFlagKeystore g)") auto
        with a Inr True False assms
        have "snd (makeList (es1, plots1, err1) 0 (of_nat (length plots1))) = (Some list0, err)"
          by (simp add: getOfflineBindingList_def snd_emit)
        from makeList_counts [OF this] show ?thesis by simp
      next
        case no: False
        with a Inr False assms show ?thesis
          by (simp add: getOfflineBindingList_def snd_emit)
      qed
    qed
  qed
qed

lemma length_firstSeen: "length (firstSeen seen ps) \<le> length ps"
  by (induction ps arbitrary: seen) (auto intro: le_SucI)

lemma firstSeen_distinct:
  "distinct (map Target ps) \<Longrightarrow> set (map Target ps) \<inter> set seen = {} \<Longrightarrow> firstSeen seen ps = ps"
  by (induction ps arbitrary: seen) auto

lemma unat_of_nat_64: "n < 2 ^ 63 \<Longrightarrow> unat (of_nat n :: 64 word) = n"
proof -
  assume "n < 2 ^ 63"
  then have "n < 2 ^ LENGTH(64)" by simp
  then show ?thesis by (rule of_nat_inverse [OF refl])
qed

lemma getOfflineBindingList_not_nil_nil:
  "snd (getOfflineBindingList env g) \<noteq> (None, None)"
proof -
  have m: "snd (makeList r d c) \<noteq> (None, None)" for r :: "(BindingPlot list \<times> error option) io" and d c
    by (cases r) (auto simp: makeList_def)
  obtain es r where a: "absDirs env (getBindingListFlagDirectories g) = (es, r)"
    by (cases "absDirs env (getBindingListFlagDirectories g)")
  show ?thesis
    using a m by (cases r) (auto simp: getOfflineBindingList_def snd_emit Let_def)
qed

section \<open>A cancelled scan does nothing more\<close>

lemma emit_emit: "emit xs (emit ys m) = emit (xs @ ys) m"
  by (simp add: emit_def)

lemma emit_pair: "emit xs (ys, r) = (xs @ ys, r)"
  by (simp add: emit_def)

lemma filesV1_step:
  assumes "\<not> interruptCh env polls"
  shows "\<exists>pre. Select True \<notin> set pre \<and>
           ((\<exists>plots' n'. filesV1 env all dbDir (f # fs) polls plots n =
                emit pre (filesV1 env all dbDir fs (Suc polls) plots' n'))
            \<or> (\<exists>ret. filesV1 env all dbDir (f # fs) polls plots n = (pre, Inl ret)))"
proof (cases "mismatch regStrV1 suffixV1 f")
  case True
  with assms have "filesV1 env all dbDir (f # fs) polls plots n =
      emit [Select False] (filesV1 env all dbDir fs (Suc polls) plots n)"
    by simp
  then show ?thesis by (intro exI [of _ "[Select False]"]) auto
next
  case False
  show ?thesis
  proof (cases "NewMassDBInfoV1FromFile env (Join dbDir f)")
    case (Inl err)
    with assms False have "filesV1 env all dbDir (f # fs) polls plots n =
        emit [Select False, CallNewMassDBInfoV1FromFile (Join dbDir f),
              CPrint WARN ''fail to read native massdb info'' [(''err'', FErr (Some err))]]
          (filesV1 env all dbDir fs (Suc polls) plots n)"
      by (simp add: emit_emit)
    then show ?thesis
      by (intro exI [of _ "[Select False, CallNewMassDBInfoV1FromFile (Join dbDir f),
              CPrint WARN ''fail to read native massdb info'' [(''err'', FErr (Some err))]]"]) auto
  next
    case (Inr info)
    show ?thesis
    proof (cases "\<not> Plotted info \<and> \<not> all")
      case True
      with assms False Inr have "filesV1 env all dbDir (f # fs) polls plots n =
          emit [Select False, CallNewMassDBInfoV1FromFile (Join dbDir f)]
            (filesV1 env all dbDir fs (Suc polls) plots n)"
        by (simp add: emit_emit)
      then show ?thesis
        by (intro exI [of _ "[Select False, CallNewMassDBInfoV1FromFile (Join dbDir f)]"]) auto
    next
      case el: False
      show ?thesis
      proof (cases "GetMassDBBindingTarget env (PublicKey info) (BitLength info)")
        case bad: (Inl err)
        with assms False Inr el have "filesV1 env all dbDir (f # fs) polls plots n =
            ([Select False, CallNewMassDBInfoV1FromFile (Join dbDir f),
              CallGetMassDBBindingTarget (PublicKey info) (BitLength info)], Inl ([], Some err))"
          by (auto simp: emit_def)
        then show ?thesis
          by (intro exI [of _ "[Select False, CallNewMassDBInfoV1FromFile (Join dbDir f),
              CallGetMassDBBindingTarget (PublicKey info) (BitLength info)]"]) auto
      next
        case ok: (Inr target)
        with assms False Inr el have "filesV1 env all dbDir (f # fs) polls plots n =
            emit [Select False, CallNewMassDBInfoV1FromFile (Join dbDir f),
                  CallGetMassDBBindingTarget (PublicKey info) (BitLength info)]
              (filesV1 env all dbDir fs (Suc polls)
                 (plots @ [\<lparr>Target = target, Type = ProofTypeDefault,
                            Size = of_int (BitLength info)\<rparr>]) (n + 1))"
          by (auto simp: emit_emit)
        then show ?thesis
          by (intro exI [of _ "[Select False, CallNewMassDBInfoV1FromFile (Join dbDir f),
                  CallGetMassDBBindingTarget (PublicKey info) (BitLength info)]"]) auto
      qed
    qed
  qed
qed

lemma filesV1_stops:
  "Select True \<in> set (fst (filesV1 env all dbDir fis polls plots n)) \<Longrightarrow>
   \<exists>es. fst (filesV1 env all dbDir fis polls plots n) =
           es @ [Select True, CPrint WARN ''cancel searching plot files'' []] \<and>
         Select True \<notin> set es"
proof (induction fis arbitrary: polls plots n)
  case Nil
  then show ?case by simp
next
  case (Cons f fs)
  show ?case
  proof (cases "interruptCh env polls")
    case True
    then have "fst (filesV1 env all dbDir (f # fs) polls plots n) =
        [] @ [Select True, CPrint WARN ''cancel searching plot files'' []]"
      by simp
    then show ?thesis by (intro exI [of _ "[]"]) simp
  next
    case False
    from filesV1_step [OF False, of all dbDir f fs plots n]
    obtain pre where pre: "Select True \<notin> set pre"
      and step: "(\<exists>plots' n'. filesV1 env all dbDir (f # fs) polls plots n =
                emit pre (filesV1 env all dbDir fs (Suc polls) plots' n'))
            \<or> (\<exists>ret. filesV1 env all dbDir (f # fs) polls plots n = (pre, Inl ret))"
      by blast
    from step show ?thesis
    proof
      assume "\<exists>plots' n'. filesV1 env all dbDir (f # fs) polls plots n =
                emit pre (filesV1 env all dbDir fs (Suc polls) plots' n')"
      then obtain plots' n' where eq: "filesV1 env all dbDir (f # fs) polls plots n =
                emit pre (filesV1 env all dbDir fs (Suc polls) plots' n')"
        by blast
      with Cons.prems pre
      have "Select True \<in> set (fst (filesV1 env all dbDir fs (Suc polls) plots' n'))"
        by (simp add: fst_emit)
      from Cons.IH [OF this] obtain es where
        es: "fst (filesV1 env all dbDir fs (Suc polls) plots' n') =
               es @ [Select True, CPrint WARN ''cancel searching plot files'' []]"
        and no: "Select True \<notin> set es"
        by blast
      from eq es have "fst (filesV1 env all dbDir (f # fs) polls plots n) =
          (pre @ es) @ [Select True, CPrint WARN ''cancel searching plot files'' []]"
        by (simp add: fst_emit)
      moreover from pre no have "Select True \<notin> set (pre @ es)" by simp
      ultimately show ?thesis by blast
    next
      assume "\<exists>ret. filesV1 env all dbDir (f # fs) polls plots n = (pre, Inl ret)"
      with Cons.prems pre show ?thesis by auto
    qed
  qed
qed

lemma dirsV1_stops:
  "Select True \<in> set (fst (dirsV1 env all dirs polls plots n)) \<Longrightarrow>
   \<exists>es. fst (dirsV1 env all dirs polls plots n) =
           es @ [Select True, CPrint WARN ''cancel searching plot files'' []] \<and>
         Select True \<notin> set es"
proof (induction dirs arbitrary: polls plots n)
  case Nil
  then show ?case by simp
next
  case (Cons d ds)
  show ?case
  proof (cases "ioutil_ReadDir env d")
    case (Inl e)
    with Cons.prems show ?thesis by (simp add: fst_emit)
  next
    case (Inr fs)
    let ?pre = "[CallReadDir d,
                 CPrint INFO ''searching for native MassDB files'' [(''dir'', FStr d)]]"
    obtain fes r where f: "filesV1 env all d fs polls plots 0 = (fes, r)"
      by (cases "filesV1 env all d fs polls plots 0")
    show ?thesis
    proof (cases r)
      case (Inl ret)
      with Inr f have tr: "fst (dirsV1 env all (d # ds) polls plots n) = ?pre @ fes"
        by (simp add: fst_emit)
      with Cons.prems have "Select True \<in> set (fst (filesV1 env all d fs polls plots 0))"
        using f by simp
      from filesV1_stops [OF this] f obtain es where
        es: "fes = es @ [Select True, CPrint WARN ''cancel searching plot files'' []]"
        and no: "Select True \<notin> set es"
        by auto
      from tr es have "fst (dirsV1 env all (d # ds) polls plots n) =
          (?pre @ es) @ [Select True, CPrint WARN ''cancel searching plot files'' []]"
        by simp
      moreover from no have "Select True \<notin> set (?pre @ es)" by simp
      ultimately show ?thesis by blast
    next
      case r: (Inr st)
      obtain polls' plots' k where st: "st = (polls', plots', k)" by (cases st)
      let ?mid = "[CPrint INFO ''loaded native MassDB files from directory''
                     [(''dir'', FStr d), (''db_count'', FInt k)]]"
      from Inr f r st
      have tr: "fst (dirsV1 env all (d # ds) polls plots n) =
          (?pre @ fes @ ?mid) @ fst (dirsV1 env all ds polls' plots' (n + k))"
        by (simp add: fst_emit)
      from filesV1_cancel [of env all d fs polls plots 0] f r
      have nofes: "Select True \<notin> set fes" by auto
      with Cons.prems tr
      have "Select True \<in> set (fst (dirsV1 env all ds polls' plots' (n + k)))"
        by auto
      from Cons.IH [OF this] obtain es where
        es: "fst (dirsV1 env all ds polls' plots' (n + k)) =
               es @ [Select True, CPrint WARN ''cancel searching plot files'' []]"
        and no: "Select True \<notin> set es"
        by blast
      from tr es have "fst (dirsV1 env all (d # ds) polls plots n) =
          ((?pre @ fes @ ?mid) @ es) @ [Select True, CPrint WARN ''cancel searching plot files'' []]"
        by simp
      moreover from nofes no have "Select True \<notin> set ((?pre @ fes @ ?mid) @ es)" by simp
      ultimately show ?thesis by blast
    qed
  qed
qed

lemma V1_stops:
  "Select True \<in> set (fst (getOfflineBindingListV1 env dirs all)) \<Longrightarrow>
   \<exists>es. fst (getOfflineBindingListV1 env dirs all) =
           es @ [Select True, CPrint WARN ''cancel searching plot files'' []] \<and>
         Select True \<notin> set es"
proof -
  assume a: "Select True \<in> set (fst (getOfflineBindingListV1 env dirs all))"
  obtain des r where d: "dirsV1 env all dirs 0 [] 0 = (des, r)"
    by (cases "dirsV1 env all dirs 0 [] 0")
  from a d have "Select True \<in> set (fst (dirsV1 env all dirs 0 [] 0))"
    by (auto simp: getOfflineBindingListV1_def split: sum.splits)
  from dirsV1_stops [OF this] dirsV1_cancel [OF this] d show ?thesis
    by (auto simp: getOfflineBindingListV1_def)
qed

lemma filesV2_step:
  assumes "\<not> interruptCh env polls"
  shows "\<exists>pre. Select True \<notin> set pre \<and>
           ((\<exists>plots' n'. filesV2 env keystore dbDir (f # fs) polls plots n =
                emit pre (filesV2 env keystore dbDir fs (Suc polls) plots' n'))
            \<or> (\<exists>ret. filesV2 env keystore dbDir (f # fs) polls plots n = (pre, Inl ret)))"
proof (cases "mismatch regStrV2 suffixV2 f")
  case True
  with assms have "filesV2 env keystore dbDir (f # fs) polls plots n =
      emit [Select False] (filesV2 env keystore dbDir fs (Suc polls) plots n)"
    by simp
  then show ?thesis by (intro exI [of _ "[Select False]"]) auto
next
  case False
  show ?thesis
  proof (cases "NewMassDBInfoV2FromFile env (Join dbDir f)")
    case (Inl err)
    with assms False have "filesV2 env keystore dbDir (f # fs) polls plots n =
        emit [Select False, CallNewMassDBInfoV2FromFile (Join dbDir f),
              CPrint WARN ''fail to read chia plot info'' [(''err'', FErr (Some err))]]
          (filesV2 env keystore dbDir fs (Suc polls) plots n)"
      by (simp add: emit_emit)
    then show ?thesis
      by (intro exI [of _ "[Select False, CallNewMassDBInfoV2FromFile (Join dbDir f),
              CPrint WARN ''fail to read chia plot info'' [(''err'', FErr (Some err))]]"]) auto
  next
    case (Inr info)
    show ?thesis
    proof (cases "\<not> ownablePlot keystore info")
      case True
      with assms False Inr have "filesV2 env keystore dbDir (f # fs) polls plots n =
          emit [Select False, CallNewMassDBInfoV2FromFile (Join dbDir f)]
            (filesV2 env keystore dbDir fs (Suc polls) plots n)"
        by (simp add: emit_emit)
      then show ?thesis
        by (intro exI [of _ "[Select False, CallNewMassDBInfoV2FromFile (Join dbDir f)]"]) auto
    next
      case el: False
      show ?thesis
      proof (cases "GetChiaPlotBindingTarget env (PlotID info) (K info)")
        case bad: (Inl err)
        with assms False Inr el have "filesV2 env keystore dbDir (f # fs) polls plots n =
            ([Select False, CallNewMassDBInfoV2FromFile (Join dbDir f),
              CallGetChiaPlotBindingTarget (PlotID info) (K info)], Inl ([], Some err))"
          by (auto simp: emit_def)
        then show ?thesis
          by (intro exI [of _ "[Select False, CallNewMassDBInfoV2FromFile (Join dbDir f),
              CallGetChiaPlotBindingTarget (PlotID info) (K info)]"]) auto
      next
        case ok: (Inr target)
        with assms False Inr el have "filesV2 env keystore dbDir (f # fs) polls plots n =
            emit [Select False, CallNewMassDBInfoV2FromFile (Join dbDir f),
                  CallGetChiaPlotBindingTarget (PlotID info) (K info)]
              (filesV2 env keystore dbDir fs (Suc polls)
                 (plots @ [\<lparr>Target = target, Type = ProofTypeChia,
                            Size = of_int (K info)\<rparr>]) (n + 1))"
          by (auto simp: emit_emit)
        then show ?thesis
          by (intro exI [of _ "[Select False, CallNewMassDBInfoV2FromFile (Join dbDir f),
                  CallGetChiaPlotBindingTarget (PlotID info) (K info)]"]) auto
      qed
    qed
  qed
qed

lemma filesV2_stops:
  "Select True \<in> set (fst (filesV2 env keystore dbDir fis polls plots n)) \<Longrightarrow>
   \<exists>es. fst (filesV2 env keystore dbDir fis polls plots n) =
           es @ [Select True, CPrint WARN ''cancel searching plot files'' []] \<and>
         Select True \<notin> set es"
proof (induction fis arbitrary: polls plots n)
  case Nil
  then show ?case by simp
next
  case (Cons f fs)
  show ?case
  proof (cases "interruptCh env polls")
    case True
    then have "fst (filesV2 env keystore dbDir (f # fs) polls plots n) =
        [] @ [Select True, CPrint WARN ''cancel searching plot files'' []]"
      by simp
    then show ?thesis by (intro exI [of _ "[]"]) simp
  next
    case False
    from filesV2_step [OF False, of keystore dbDir f fs plots n]
    obtain pre where pre: "Select True \<notin> set pre"
      and step: "(\<exists>plots' n'. filesV2 env keystore dbDir (f # fs) polls plots n =
                emit pre (filesV2 env keystore dbDir fs (Suc polls) plots' n'))
            \<or> (\<exists>ret. filesV2 env keystore dbDir (f # fs) polls plots n = (pre, Inl ret))"
      by blast
    from step show ?thesis
    proof
      assume "\<exists>plots' n'. filesV2 env keystore dbDir (f # fs) polls plots n =
                emit pre (filesV2 env keystore dbDir fs (Suc polls) plots' n')"
      then obtain plots' n' where eq: "filesV2 env keystore dbDir (f # fs) polls plots n =
                emit pre (filesV2 env keystore dbDir fs (Suc polls) plots' n')"
        by blast
      with Cons.prems pre
      have "Select True \<in> set (fst (filesV2 env keystore dbDir fs (Suc polls) plots' n'))"
        by (simp add: fst_emit)
      from Cons.IH [OF this] obtain es where
        es: "fst (filesV2 env keystore dbDir fs (Suc polls) plots' n') =
               es @ [Select True, CPrint WARN ''cancel searching plot files'' []]"
        and no: "Select True \<notin> set es"
        by blast
      from eq es have "fst (filesV2 env keystore dbDir (f # fs) polls plots n) =
          (pre @ es) @ [Select True, CPrint WARN ''cancel searching plot files'' []]"
        by (simp add: fst_emit)
      moreover from pre no have "Select True \<notin> set (pre @ es)" by simp
      ultimately show ?thesis by blast
    next
      assume "\<exists>ret. filesV2 env keystore dbDir (f # fs) polls plots n = (pre, Inl ret)"
      with Cons.prems pre show ?thesis by auto
    qed
  qed
qed

lemma dirsV2_stops:
  "Select True \<in> set (fst (dirsV2 env keystore dirs polls plots n)) \<Longrightarrow>
   \<exists>es. fst (dirsV2 env keystore dirs polls plots n) =
           es @ [Select True, CPrint WARN ''cancel searching plot files'' []] \<and>
         Select True \<notin> set es"
proof (induction dirs arbitrary: polls plots n)
  case Nil
  then show ?case by simp
next
  case (Cons d ds)
  show ?case
  proof (cases "ioutil_ReadDir env d")
    case (Inl e)
    with Cons.prems show ?thesis by (simp add: fst_emit)
  next
    case (Inr fs)
    let ?pre = "[CallReadDir d,
                 CPrint INFO ''searching for chia plot files'' [(''dir'', FStr d)]]"
    obtain fes r where f: "filesV2 env keystore d fs polls plots 0 = (fes, r)"
      by (cases "filesV2 env keystore d fs polls plots 0")
    show ?thesis
    proof (cases r)
      case (Inl ret)
      with Inr f have tr: "fst (dirsV2 env keystore (d # ds) polls plots n) = ?pre @ fes"
        by (simp add: fst_emit)
      with Cons.prems have "Select True \<in> set (fst (filesV2 env keystore d fs polls plots 0))"
        using f by simp
      from filesV2_stops [OF this] f obtain es where
        es: "fes = es @ [Select True, CPrint WARN ''cancel searching plot files'' []]"
        and no: "Select True \<notin> set es"
        by auto
      from tr es have "fst (dirsV2 env keystore (d # ds) polls plots n) =
          (?pre @ es) @ [Select True, CPrint WARN ''cancel searching plot files'' []]"
        by simp
      moreover from no have "Select True \<notin> set (?pre @ es)" by simp
      ultimately show ?thesis by blast
    next
      case r: (Inr st)
      obtain polls' plots' k where st: "st = (polls', plots', k)" by (cases st)
      let ?mid = "[CPrint INFO ''loaded chia plot files from directory''
                     [(''dir'', FStr d), (''db_count'', FInt k)]]"
      from Inr f r st
      have tr: "fst (dirsV2 env keystore (d # ds) polls plots n) =
          (?pre @ fes @ ?mid) @ fst (dirsV2 env keystore ds polls' plots' (n + k))"
        by (simp add: fst_emit)
      from filesV2_cancel [of env keystore d fs polls plots 0] f r
      have nofes: "Select True \<notin> set fes" by auto
      with Cons.prems tr
      have "Select True \<in> set (fst (dirsV2 env keystore ds polls' plots' (n + k)))"
        by auto
      from Cons.IH [OF this] obtain es where
        es: "fst (dirsV2 env keystore ds polls' plots' (n + k)) =
               es @ [Select True, CPrint WARN ''cancel searching plot files'' []]"
        and no: "Select True \<notin> set es"
        by blast
      from tr es have "fst (dirsV2 env keystore (d # ds) polls plots n) =
          ((?pre @ fes @ ?mid) @ es) @ [Select True, CPrint WARN ''cancel searching plot files'' []]"
        by simp
      moreover from nofes no have "Select True \<notin> set ((?pre @ fes @ ?mid) @ es)" by simp
      ultimately show ?thesis by blast
    qed
  qed
qed

lemma scanV2_stops:
  "Select True \<in> set (fst (scanV2 env dirs keystore err)) \<Longrightarrow>
   \<exists>es. fst (scanV2 env dirs keystore err) =
           es @ [Select True, CPrint WARN ''cancel searching plot files'' []] \<and>
         Select True \<notin> set es"
proof -
  assume a: "Select True \<in> set (fst (scanV2 env dirs keystore err))"
  obtain des r where d: "dirsV2 env keystore dirs 0 [] 0 = (des, r)"
    by (cases "dirsV2 env keystore dirs 0 [] 0")
  from a d have "Select True \<in> set (fst (dirsV2 env keystore dirs 0 [] 0))"
    by (auto simp: scanV2_def split: sum.splits)
  from dirsV2_stops [OF this] dirsV2_cancel [OF this] d show ?thesis
    by (auto simp: scanV2_def)
qed

lemma V2_stops:
  "Select True \<in> set (fst (getOfflineBindingListV2 env dirs all keystoreFile)) \<Longrightarrow>
   \<exists>es. fst (getOfflineBindingListV2 env dirs all keystoreFile) =
           es @ [Select True, CPrint WARN ''cancel searching plot files'' []] \<and>
         Select True \<notin> set es"
proof (cases "keystoreFile \<noteq> []")
  case False
  assume "Select True \<in> set (fst (getOfflineBindingListV2 env dirs all keystoreFile))"
  with False scanV2_stops [of env dirs None None] show ?thesis
    by (simp add: getOfflineBindingListV2_def)
next
  case True
  assume a: "Select True \<in> set (fst (getOfflineBindingListV2 env dirs all keystoreFile))"
  show ?thesis
  proof (cases "NewKeystoreFromFile env keystoreFile")
    case (Inl err)
    with True a show ?thesis by (simp add: getOfflineBindingListV2_def fst_emit)
  next
    case (Inr ks)
    with True have tr: "fst (getOfflineBindingListV2 env dirs all keystoreFile) =
        [CallNewKeystoreFromFile keystoreFile] @ fst (scanV2 env dirs (Some ks) None)"
      by (simp add: getOfflineBindingListV2_def fst_emit)
    with a have "Select True \<in> set (fst (scanV2 env dirs (Some ks) None))" by simp
    from scanV2_stops [OF this] obtain es where
      es: "fst (scanV2 env dirs (Some ks) None) =
             es @ [Select True, CPrint WARN ''cancel searching plot files'' []]"
      and no: "Select True \<notin> set es"
      by blast
    from tr es have "fst (getOfflineBindingListV2 env dirs all keystoreFile) =
        ([CallNewKeystoreFromFile keystoreFile] @ es) @
          [Select True, CPrint WARN ''cancel searching plot files'' []]"
      by simp
    moreover from no have "Select True \<notin> set ([CallNewKeystoreFromFile keystoreFile] @ es)"
      by simp
    ultimately show ?thesis by blast
  qed
qed

section \<open>The example world\<close>

lemma ToUpper_nameA:
  "ToUpper nameA = ''1_02AABBCCDDEEFF00112233445566778899AABBCCDDEEFF00112233445566778899_32.MASSDB''"
  by (simp add: nameA_def upperByte_def char_of_def bit_Suc_0_iff)

lemma ToUpper_nameB:
  "ToUpper nameB = ''2_03FFEEDDCCBBAA99887766554433221100FFEEDDCCBBAA99887766554433221100_32.MASSDB''"
  by (simp add: nameB_def upperByte_def char_of_def bit_Suc_0_iff)

lemma ToUpper_nameP:
  "ToUpper nameP = ''PLOT-K32-2021-06-01-12-30-00112233445566778899AABBCCDDEEFF00112233445566778899AABBCCDDEEFF.PLOT''"
  by (simp add: nameP_def upperByte_def char_of_def bit_Suc_0_iff)

lemma ToUpper_nameQ:
  "ToUpper nameQ = ''PLOT-K32-2021-06-02-08-15-FFEEDDCCBBAA99887766554433221100FFEEDDCCBBAA99887766554433221100.PLOT''"
  by (simp add: nameQ_def upperByte_def char_of_def bit_Suc_0_iff)

lemma nameA_ok: "\<not> mismatch regStrV1 suffixV1 nameA"
  unfolding classify_V1 ToUpper_nameA
  apply (rule exI [of _ "''1''"])
  apply (rule exI [of _ "''02AABBCCDDEEFF00112233445566778899AABBCCDDEEFF00112233445566778899''"])
  apply (rule exI [of _ "''32''"])
  apply (simp add: isDigit_def isUpperHex_def inRange_def)
  done

lemma nameB_ok: "\<not> mismatch regStrV1 suffixV1 nameB"
  unfolding classify_V1 ToUpper_nameB
  apply (rule exI [of _ "''2''"])
  apply (rule exI [of _ "''03FFEEDDCCBBAA99887766554433221100FFEEDDCCBBAA99887766554433221100''"])
  apply (rule exI [of _ "''32''"])
  apply (simp add: isDigit_def isUpperHex_def inRange_def)
  done

lemma nameP_ok: "\<not> mismatch regStrV2 suffixV2 nameP"
  unfolding classify_V2 ToUpper_nameP
  apply (rule exI [of _ "''32''"])
  apply (rule exI [of _ "''2021''"])
  apply (rule exI [of _ "''06''"])
  apply (rule exI [of _ "''01''"])
  apply (rule exI [of _ "''12''"])
  apply (rule exI [of _ "''30''"])
  apply (rule exI [of _ "''00112233445566778899AABBCCDDEEFF00112233445566778899AABBCCDDEEFF''"])
  apply (simp add: isDigit_def isUpperHex_def inRange_def)
  done

lemma nameQ_ok: "\<not> mismatch regStrV2 suffixV2 nameQ"
  unfolding classify_V2 ToUpper_nameQ
  apply (rule exI [of _ "''32''"])
  apply (rule exI [of _ "''2021''"])
  apply (rule exI [of _ "''06''"])
  apply (rule exI [of _ "''02''"])
  apply (rule exI [of _ "''08''"])
  apply (rule exI [of _ "''15''"])
  apply (rule exI [of _ "''FFEEDDCCBBAA99887766554433221100FFEEDDCCBBAA99887766554433221100''"])
  apply (simp add: isDigit_def isUpperHex_def inRange_def)
  done

lemma garbage_V1: "mismatch regStrV1 suffixV1 ''garbage.txt''"
  by (simp add: mismatch_def HasSuffix_def suffixV1_def upperByte_def char_of_def bit_Suc_0_iff)

lemma garbage_V2: "mismatch regStrV2 suffixV2 ''garbage.txt''"
  by (simp add: mismatch_def HasSuffix_def suffixV2_def upperByte_def char_of_def bit_Suc_0_iff)

lemma world_ReadDir:
  "ioutil_ReadDir (world s) ''/m1'' = Inr [nameB, nameA]"
  "ioutil_ReadDir (world s) ''/m1u'' = Inr [nameA, ''garbage.txt'', nameB]"
  "ioutil_ReadDir (world s) ''/m1x'' = Inr [nameA, nameB]"
  "ioutil_ReadDir (world s) ''/m2'' = Inr [nameP, nameQ]"
  "ioutil_ReadDir (world s) ''/m2o'' = Inr [nameP, ''garbage.txt'', nameQ]"
  "ioutil_ReadDir (world s) ''/m2x'' = Inr [nameP, nameQ]"
  by (simp_all add: world_def)

lemma world_headerV1:
  "NewMassDBInfoV1FromFile (world s) (Join ''/m1'' nameA) = Inr infoA"
  "NewMassDBInfoV1FromFile (world s) (Join ''/m1'' nameB) = Inl (ErrorString ''bad header'')"
  "NewMassDBInfoV1FromFile (world s) (Join ''/m1u'' nameA) = Inr infoA"
  "NewMassDBInfoV1FromFile (world s) (Join ''/m1u'' nameB) = Inr infoU"
  "NewMassDBInfoV1FromFile (world s) (Join ''/m1x'' nameA) = Inr infoA"
  "NewMassDBInfoV1FromFile (world s) (Join ''/m1x'' nameB) = Inr infoX"
  by (simp_all add: world_def Join_def nameA_def nameB_def)

lemma world_headerV2:
  "NewMassDBInfoV2FromFile (world s) (Join ''/m2'' nameP) = Inr infoP"
  "NewMassDBInfoV2FromFile (world s) (Join ''/m2'' nameQ) = Inl (ErrorString ''bad header'')"
  "NewMassDBInfoV2FromFile (world s) (Join ''/m2o'' nameP) = Inr infoP"
  "NewMassDBInfoV2FromFile (world s) (Join ''/m2o'' nameQ) = Inr infoQ"
  "NewMassDBInfoV2FromFile (world s) (Join ''/m2x'' nameP) = Inr infoP"
  "NewMassDBInfoV2FromFile (world s) (Join ''/m2x'' nameQ) = Inr infoY"
  by (simp_all add: world_def Join_def nameP_def nameQ_def)

lemma world_targets:
  "GetMassDBBindingTarget (world s) pk 32 = Inr (''m1-'' @ pk)"
  "GetMassDBBindingTarget (world s) pk 99 = Inl (ErrorString ''invalid bit length'')"
  "GetChiaPlotBindingTarget (world s) plotId 32 = Inr (''m2-'' @ plotId)"
  "GetChiaPlotBindingTarget (world s) plotId 7 = Inl (ErrorString ''invalid k'')"
  by (simp_all add: world_def)

lemma world_keystore:
  "NewKeystoreFromFile (world s) ''/keys.json'' = Inr keys"
  "interruptCh (world s) = s"
  "filepath_Abs (world s) = Inr"
  by (simp_all add: world_def)

lemma keys_own:
  "ownablePlot (Some keys) infoP"
  "\<not> ownablePlot (Some keys) infoQ"
  "ownablePlot None info"
  by (simp_all add: ownablePlot_def keys_def infoP_def infoQ_def)

lemma info_fields:
  "PublicKey infoA = ''02aa''" "BitLength infoA = 32" "Plotted infoA"
  "PublicKey infoU = ''03ff''" "BitLength infoU = 32" "\<not> Plotted infoU"
  "PublicKey infoX = ''03ff''" "BitLength infoX = 99" "Plotted infoX"
  "PlotID infoP = ''0011''" "K infoP = 32"
  "PlotID infoQ = ''ffee''" "K infoQ = 32"
  "PlotID infoY = ''ffee''" "K infoY = 7"
  by (simp_all add: infoA_def infoU_def infoX_def infoP_def infoQ_def infoY_def)

lemmas world_simps =
  world_ReadDir world_headerV1 world_headerV2 world_targets world_keystore keys_own info_fields
  nameA_ok nameB_ok nameP_ok nameQ_ok garbage_V1 garbage_V2

lemma run_cancel_V1:
  "getOfflineBindingListV1 (world afterFirst) [''/m1u''] False =
     ([CallReadDir ''/m1u'',
       CPrint INFO ''searching for native MassDB files'' [(''dir'', FStr ''/m1u'')],
       Select False, CallNewMassDBInfoV1FromFile (Join ''/m1u'' nameA),
       CallGetMassDBBindingTarget ''02aa'' 32, Select True,
       CPrint WARN ''cancel searching plot files'' []], [], None)"
  by (simp add: getOfflineBindingListV1_def emit_def world_simps afterFirst_def)

lemma run_cancel_V2:
  "getOfflineBindingListV2 (world afterFirst) [''/m2o''] False ''/keys.json'' =
     ([CallNewKeystoreFromFile ''/keys.json'', CallReadDir ''/m2o'',
       CPrint INFO ''searching for chia plot files'' [(''dir'', FStr ''/m2o'')],
       Select False, CallNewMassDBInfoV2FromFile (Join ''/m2o'' nameP),
       CallGetChiaPlotBindingTarget ''0011'' 32, Select True,
       CPrint WARN ''cancel searching plot files'' []], [], None)"
  by (simp add: getOfflineBindingListV2_def scanV2_def emit_def world_simps afterFirst_def)

lemma run_underivable_V1:
  "getOfflineBindingListV1 (world never) [''/m1x''] False =
     ([CallReadDir ''/m1x'',
       CPrint INFO ''searching for native MassDB files'' [(''dir'', FStr ''/m1x'')],
       Select False, CallNewMassDBInfoV1FromFile (Join ''/m1x'' nameA),
       CallGetMassDBBindingTarget ''02aa'' 32,
       Select False, CallNewMassDBInfoV1FromFile (Join ''/m1x'' nameB),
       CallGetMassDBBindingTarget ''03ff'' 99],
      [], Some (ErrorString ''invalid bit length''))"
  by (simp add: getOfflineBindingListV1_def emit_def world_simps never_def)

lemma run_underivable_V2:
  "getOfflineBindingListV2 (world never) [''/m2x''] False [] =
     ([CallReadDir ''/m2x'',
       CPrint INFO ''searching for chia plot files'' [(''dir'', FStr ''/m2x'')],
       Select False, CallNewMassDBInfoV2FromFile (Join ''/m2x'' nameP),
       CallGetChiaPlotBindingTarget ''0011'' 32,
       Select False, CallNewMassDBInfoV2FromFile (Join ''/m2x'' nameQ),
       CallGetChiaPlotBindingTarget ''ffee'' 7],
      [], Some (ErrorString ''invalid k''))"
  by (simp add: getOfflineBindingListV2_def scanV2_def emit_def world_simps never_def)

lemma run_plain_V1:
  "getOfflineBindingListV1 (world never) [''/m1u''] False =
     ([CallReadDir ''/m1u'',
       CPrint INFO ''searching for native MassDB files'' [(''dir'', FStr ''/m1u'')],
       Select False, CallNewMassDBInfoV1FromFile (Join ''/m1u'' nameA),
       CallGetMassDBBindingTarget ''02aa'' 32, Select False, Select False,
       CallNewMassDBInfoV1FromFile (Join ''/m1u'' nameB),
       CPrint INFO ''loaded native MassDB files from directory''
         [(''dir'', FStr ''/m1u''), (''db_count'', FInt 1)],
       CPrint INFO ''loaded native MassDB files from all directories''
         [(''dir_count'', FInt 1), (''total_db_count'', FInt 1)]],
      [\<lparr>Target = ''m1-02aa'', Type = ProofTypeDefault, Size = 32\<rparr>], None)"
  by (simp add: getOfflineBindingListV1_def emit_def world_simps never_def)

lemma run_plain_V2:
  "getOfflineBindingListV2 (world never) [''/m2o''] False [] =
     ([CallReadDir ''/m2o'',
       CPrint INFO ''searching for chia plot files'' [(''dir'', FStr ''/m2o'')],
       Select False, CallNewMassDBInfoV2FromFile (Join ''/m2o'' nameP),
       CallGetChiaPlotBindingTarget ''0011'' 32, Select False, Select False,
       CallNewMassDBInfoV2FromFile (Join ''/m2o'' nameQ),
       CallGetChiaPlotBindingTarget ''ffee'' 32,
       CPrint INFO ''loaded chia plot files from directory''
         [(''dir'', FStr ''/m2o''), (''db_count'', FInt 2)],
       CPrint INFO ''loaded chia plot files from all directories''
         [(''dir_count'', FInt 1), (''total_db_count'', FInt 2)]],
      [\<lparr>Target = ''m2-0011'', Type = ProofTypeChia, Size = 32\<rparr>,
       \<lparr>Target = ''m2-ffee'', Type = ProofTypeChia, Size = 32\<rparr>], None)"
  by (simp add: getOfflineBindingListV2_def scanV2_def emit_def world_simps never_def)

lemma short_key_rejected: "mismatch regStrV1 suffixV1 ''1_02AABB_32.MASSDB''"
  by (simp add: mismatch_def regStrV1_def Plus_def digit_def upperHex_def inRange_def
        upperByte_def eval_nat_numeral)

lemma trailing_rejected:
  "mismatch regStrV1 suffixV1 (nameA @ ''x'')" "mismatch regStrV2 suffixV2 (nameP @ ''.tmp'')"
  by (simp_all add: mismatch_def HasSuffix_def suffixV1_def suffixV2_def nameA_def nameP_def
        upperByte_def char_of_def bit_Suc_0_iff)

lemma world_headersV1: "headersV1 (world s) ''/m1u'' = [infoA, infoU]"
  by (simp add: headersV1_def headerV1_def map_filter_Cons world_simps List.map_filter_def)

lemma world_headersV2: "headersV2 (world s) ''/m2o'' = [infoP, infoQ]"
  by (simp add: headersV2_def headerV2_def map_filter_Cons world_simps List.map_filter_def)

lemma run_twice:
  "snd (getOfflineBindingList (world never) (flags ''m1'' [''/m1'', ''/m1''])) = (Some twice, None)"
  by (simp add: getOfflineBindingList_def makeList_def getOfflineBindingListV1_def emit_def
        flags_def twice_def world_simps never_def)

lemma run_single:
  "snd (getOfflineBindingList (world never) (flags ''m1'' [''/m1u''])) = (Some single, None)"
  by (simp add: getOfflineBindingList_def makeList_def getOfflineBindingListV1_def emit_def
        flags_def single_def world_simps never_def)

section \<open>The checks of the file name\<close>

text \<open>
  C9. When the file name argument resolves to a path that exists and is a directory, the
  action logs an error and returns the error of \<open>os.Stat\<close>, which is nil: the trace holds
  the two calls and the message and nothing of a scan, and the process ends with status 0.
\<close>

theorem directory_argument_is_no_error:
  assumes "Args context = first # rest"
    and "filepath_Abs env first = Inr absPath"
    and "os_Stat env absPath = Inr fi"
    and "IsDir fi"
  shows "Action env context =
           ([CallAbs first, CallStat absPath,
             CPrint ERROR ''filename is a directory'' [(''filename'', FStr first)]], None)
         \<and> snd (main env context) = 0"
  using assms by (simp add: Action_def main_def emit_def errOf_def)

theorem directory_argument_is_no_error_witness:
  "Action (world never) (commandLine ''/out'' ''m1'' [''/m1'']) =
     ([CallAbs ''/out'', CallStat ''/out'',
       CPrint ERROR ''filename is a directory'' [(''filename'', FStr ''/out'')]], None)
   \<and> snd (main (world never) (commandLine ''/out'' ''m1'' [''/m1''])) = 0"
  using directory_argument_is_no_error
    [of "commandLine ''/out'' ''m1'' [''/m1'']" "''/out''" "[]" "world never" "''/out''"
        "\<lparr>IsDir = True\<rparr>"]
  by (simp add: commandLine_def world_def)

text \<open>
  C2, at an input where the code departs from it. The output file \<open>/out/old.json\<close> exists
  and \<open>--overwrite\<close> is not given: the action reports the error before any scan, but what it
  returns is the error of \<open>os.Stat\<close>, nil for a file that exists, and the status is 0.
\<close>

theorem existing_output_file_exits_with_success:
  "main (world never) (commandLine ''/out/old.json'' ''m1'' [''/m1'']) =
     ([CallAbs ''/out/old.json'', CallStat ''/out/old.json'', CallStat ''/out/old.json'',
       CPrint ERROR ''cannot overwrite existed file, try again with --overwrite''
         [(''filename'', FStr ''/out/old.json'')]], 0)"
  by (simp add: main_def Action_def emit_def errOf_def IsNotExist_def commandLine_def world_def)

section \<open>The keystore\<close>

text \<open>
  C10. In a run for the compatible format with a keystore path, a keystore that fails to
  load ends the extractor with that error after the one call that loads it, and ends
  \<open>getOfflineBindingList\<close> with no list and that error: no directory is listed and no
  file is opened.
\<close>

theorem keystore_failure_aborts_before_scan:
  assumes "getBindingListFlagPlotType g = ''m2''"
    and "getBindingListFlagKeystore g \<noteq> []"
    and "NewKeystoreFromFile env (getBindingListFlagKeystore g) = Inl e"
    and "absDirs env (getBindingListFlagDirectories g) = (es, Inr absDirectories)"
  shows "getOfflineBindingListV2 env absDirectories (getBindingListFlagListAll g)
             (getBindingListFlagKeystore g) =
           ([CallNewKeystoreFromFile (getBindingListFlagKeystore g)], ([], Some e))
         \<and> getOfflineBindingList env g =
           (es @ [SignalNotify,
                  CPrint INFO ''searching for plot files from disk, this may take a while (enter CTRL+C to cancel running)''
                    [(''dir_count'', FInt (int (length absDirectories)))],
                  CallNewKeystoreFromFile (getBindingListFlagKeystore g),
                  CPrint ERROR ''fail to get offline binding list'' [(''err'', FErr (Some e))]],
            (None, Some e))"
proof -
  have v2: "getOfflineBindingListV2 env absDirectories (getBindingListFlagListAll g)
             (getBindingListFlagKeystore g) =
           ([CallNewKeystoreFromFile (getBindingListFlagKeystore g)], ([], Some e))"
    using assms(2,3) by (simp add: getOfflineBindingListV2_def emit_def)
  have "''m2'' \<noteq> ''m1''" by simp
  with assms(1,4) v2 show ?thesis
    by (simp add: getOfflineBindingList_def makeList_def emit_def)
qed

theorem keystore_failure_aborts_before_scan_witness:
  "getOfflineBindingList (world never)
      ((flags ''m2'' [''/m2''])\<lparr>getBindingListFlagKeystore := ''/lost.json''\<rparr>) =
     ([CallAbs ''/m2'', SignalNotify,
       CPrint INFO ''searching for plot files from disk, this may take a while (enter CTRL+C to cancel running)''
         [(''dir_count'', FInt 1)],
       CallNewKeystoreFromFile ''/lost.json'',
       CPrint ERROR ''fail to get offline binding list''
         [(''err'', FErr (Some (ErrorString ''cannot read keystore'')))]],
      (None, Some (ErrorString ''cannot read keystore'')))"
  using keystore_failure_aborts_before_scan
    [of "(flags ''m2'' [''/m2''])\<lparr>getBindingListFlagKeystore := ''/lost.json''\<rparr>"
        "world never" "ErrorString ''cannot read keystore''" "[CallAbs ''/m2'']" "[''/m2'']"]
  by (simp add: flags_def world_def emit_def)
section \<open>Cancellation\<close>

text \<open>
  C3. In both extractors, a signal found in the interrupt channel at a file boundary stops
  the scan and ends the function with no plots and no error, whatever \<open>plots\<close> holds by
  then. At the loop, for every state of it: the poll and the message are all that happens,
  no further entry is looked at (first two conjuncts). For a whole run, whenever one of its
  polls received the signal: the run returns no plots and no error, and its trace ends with
  that poll and the message, the first poll to receive a signal (last two conjuncts).
\<close>

theorem cancellation_returns_nothing:
  "(interruptCh env polls \<longrightarrow>
      filesV1 env all dbDir (fileName # fis) polls plots dirSearched =
        ([Select True, CPrint WARN ''cancel searching plot files'' []], Inl ([], None)))
   \<and> (interruptCh env polls \<longrightarrow>
      filesV2 env keystore dbDir (fileName # fis) polls plots dirSearched =
        ([Select True, CPrint WARN ''cancel searching plot files'' []], Inl ([], None)))
   \<and> (Select True \<in> set (fst (getOfflineBindingListV1 env dirs all)) \<longrightarrow>
      snd (getOfflineBindingListV1 env dirs all) = ([], None) \<and>
      (\<exists>es. fst (getOfflineBindingListV1 env dirs all) =
              es @ [Select True, CPrint WARN ''cancel searching plot files'' []] \<and>
            Select True \<notin> set es))
   \<and> (Select True \<in> set (fst (getOfflineBindingListV2 env dirs all keystoreFile)) \<longrightarrow>
      snd (getOfflineBindingListV2 env dirs all keystoreFile) = ([], None) \<and>
      (\<exists>es. fst (getOfflineBindingListV2 env dirs all keystoreFile) =
              es @ [Select True, CPrint WARN ''cancel searching plot files'' []] \<and>
            Select True \<notin> set es))"
proof (intro conjI impI)
  assume "interruptCh env polls"
  then show "filesV1 env all dbDir (fileName # fis) polls plots dirSearched =
        ([Select True, CPrint WARN ''cancel searching plot files'' []], Inl ([], None))"
    by simp
next
  assume "interruptCh env polls"
  then show "filesV2 env keystore dbDir (fileName # fis) polls plots dirSearched =
        ([Select True, CPrint WARN ''cancel searching plot files'' []], Inl ([], None))"
    by simp
next
  assume "Select True \<in> set (fst (getOfflineBindingListV1 env dirs all))"
  then show "snd (getOfflineBindingListV1 env dirs all) = ([], None)"
    by (rule V1_cancel)
next
  assume "Select True \<in> set (fst (getOfflineBindingListV1 env dirs all))"
  then show "\<exists>es. fst (getOfflineBindingListV1 env dirs all) =
              es @ [Select True, CPrint WARN ''cancel searching plot files'' []] \<and>
            Select True \<notin> set es"
    by (rule V1_stops)
next
  assume "Select True \<in> set (fst (getOfflineBindingListV2 env dirs all keystoreFile))"
  then show "snd (getOfflineBindingListV2 env dirs all keystoreFile) = ([], None)"
    by (rule V2_cancel)
next
  assume "Select True \<in> set (fst (getOfflineBindingListV2 env dirs all keystoreFile))"
  then show "\<exists>es. fst (getOfflineBindingListV2 env dirs all keystoreFile) =
              es @ [Select True, CPrint WARN ''cancel searching plot files'' []] \<and>
            Select True \<notin> set es"
    by (rule V2_stops)
qed

text \<open>
  In the example the signal arrives after the first file of a directory has given a plot:
  the run returns nothing, and the header of the file that follows is never read.
\<close>

theorem cancellation_returns_nothing_witness:
  "interruptCh (world afterFirst) 1
   \<and> filesV1 (world afterFirst) False ''/m1u'' [nameB] 1
        [\<lparr>Target = ''m1-02aa'', Type = ProofTypeDefault, Size = 32\<rparr>] 1 =
        ([Select True, CPrint WARN ''cancel searching plot files'' []], Inl ([], None))
   \<and> filesV2 (world afterFirst) None ''/m2o'' [nameQ] 1
        [\<lparr>Target = ''m2-0011'', Type = ProofTypeChia, Size = 32\<rparr>] 1 =
        ([Select True, CPrint WARN ''cancel searching plot files'' []], Inl ([], None))
   \<and> CallGetMassDBBindingTarget ''02aa'' 32
        \<in> set (fst (getOfflineBindingListV1 (world afterFirst) [''/m1u''] False))
   \<and> Select True \<in> set (fst (getOfflineBindingListV1 (world afterFirst) [''/m1u''] False))
   \<and> snd (getOfflineBindingListV1 (world afterFirst) [''/m1u''] False) = ([], None)
   \<and> fst (getOfflineBindingListV1 (world afterFirst) [''/m1u''] False) =
        [CallReadDir ''/m1u'',
         CPrint INFO ''searching for native MassDB files'' [(''dir'', FStr ''/m1u'')],
         Select False, CallNewMassDBInfoV1FromFile (Join ''/m1u'' nameA),
         CallGetMassDBBindingTarget ''02aa'' 32]
        @ [Select True, CPrint WARN ''cancel searching plot files'' []]
   \<and> Select True
        \<in> set (fst (getOfflineBindingListV2 (world afterFirst) [''/m2o''] False ''/keys.json''))
   \<and> snd (getOfflineBindingListV2 (world afterFirst) [''/m2o''] False ''/keys.json'') = ([], None)
   \<and> fst (getOfflineBindingListV2 (world afterFirst) [''/m2o''] False ''/keys.json'') =
        [CallNewKeystoreFromFile ''/keys.json'', CallReadDir ''/m2o'',
         CPrint INFO ''searching for chia plot files'' [(''dir'', FStr ''/m2o'')],
         Select False, CallNewMassDBInfoV2FromFile (Join ''/m2o'' nameP),
         CallGetChiaPlotBindingTarget ''0011'' 32]
        @ [Select True, CPrint WARN ''cancel searching plot files'' []]"
  using
    cancellation_returns_nothing
      [where env = "world afterFirst" and polls = 1 and all = False and dbDir = "''/m1u''"
         and fileName = nameB and fis = "[]" and dirSearched = 1 and dirs = "[''/m1u'']"
         and plots = "[\<lparr>Target = ''m1-02aa'', Type = ProofTypeDefault, Size = 32\<rparr>]"]
    cancellation_returns_nothing
      [where env = "world afterFirst" and polls = 1 and all = False and dbDir = "''/m2o''"
         and fileName = nameQ and fis = "[]" and dirSearched = 1 and dirs = "[''/m2o'']"
         and keystore = None and keystoreFile = "''/keys.json''"
         and plots = "[\<lparr>Target = ''m2-0011'', Type = ProofTypeChia, Size = 32\<rparr>]"]
  by (simp add: run_cancel_V1 run_cancel_V2 world_keystore afterFirst_def)

section \<open>Failure of the target derivation\<close>

text \<open>
  C5. In both extractors, when a call of the derivation function made during a run returned
  an error, the run returns no plots and that error, and the failed call is the last thing
  the run did.
\<close>

theorem derivation_failure_aborts:
  "(CallGetMassDBBindingTarget pk bl \<in> set (fst (getOfflineBindingListV1 env dirs all)) \<and>
    GetMassDBBindingTarget env pk bl = Inl e \<longrightarrow>
      snd (getOfflineBindingListV1 env dirs all) = ([], Some e) \<and>
      last (fst (getOfflineBindingListV1 env dirs all)) = CallGetMassDBBindingTarget pk bl)
   \<and> (CallGetChiaPlotBindingTarget plotId k
         \<in> set (fst (getOfflineBindingListV2 env dirs all keystoreFile)) \<and>
       GetChiaPlotBindingTarget env plotId k = Inl e' \<longrightarrow>
      snd (getOfflineBindingListV2 env dirs all keystoreFile) = ([], Some e') \<and>
      last (fst (getOfflineBindingListV2 env dirs all keystoreFile)) =
        CallGetChiaPlotBindingTarget plotId k)"
  using V1_derive [of pk bl env dirs all e] V2_derive [of plotId k env dirs all keystoreFile e']
  by blast

theorem derivation_failure_aborts_witness:
  "CallGetMassDBBindingTarget ''03ff'' 99
     \<in> set (fst (getOfflineBindingListV1 (world never) [''/m1x''] False))
   \<and> GetMassDBBindingTarget (world never) ''03ff'' 99 = Inl (ErrorString ''invalid bit length'')
   \<and> snd (getOfflineBindingListV1 (world never) [''/m1x''] False) =
        ([], Some (ErrorString ''invalid bit length''))
   \<and> CallGetChiaPlotBindingTarget ''ffee'' 7
        \<in> set (fst (getOfflineBindingListV2 (world never) [''/m2x''] False []))
   \<and> GetChiaPlotBindingTarget (world never) ''ffee'' 7 = Inl (ErrorString ''invalid k'')
   \<and> snd (getOfflineBindingListV2 (world never) [''/m2x''] False []) =
        ([], Some (ErrorString ''invalid k''))"
  using
    derivation_failure_aborts
      [where pk = "''03ff''" and bl = 99 and env = "world never" and dirs = "[''/m1x'']"
         and all = False and e = "ErrorString ''invalid bit length''"]
    derivation_failure_aborts
      [where plotId = "''ffee''" and k = 7 and env = "world never" and dirs = "[''/m2x'']"
         and all = False and keystoreFile = "[]" and e' = "ErrorString ''invalid k''"]
  by (simp add: run_underivable_V1 run_underivable_V2 world_targets)
section \<open>The classifier of file names\<close>

text \<open>
  C7. A name passes the test of the native scan exactly when its upper-cased form is, from
  the first character to the last, an ordinal of one or more digits, an underscore, 66
  characters of 0-9 and A-F, an underscore, two digits and \<open>.MASSDB\<close>; it passes the test
  of the compatible scan exactly when its upper-cased form is \<open>PLOT-K\<close>, two digits, a
  group of four digits and four groups of two digits, each after a hyphen, a hyphen, 64
  characters of 0-9 and A-F, and \<open>.PLOT\<close>. A file that does not pass is not processed:
  every header that a run reads belongs to an entry of a listed directory whose name passes.
\<close>

theorem classifier_is_full_match:
  "(\<not> mismatch regStrV1 suffixV1 fileName \<longleftrightarrow>
     (\<exists>ordinal pubKey bitLength.
        ToUpper fileName = ordinal @ ''_'' @ pubKey @ ''_'' @ bitLength @ ''.MASSDB'' \<and>
        ordinal \<noteq> [] \<and> list_all isDigit ordinal \<and>
        length pubKey = 66 \<and> list_all isUpperHex pubKey \<and>
        length bitLength = 2 \<and> list_all isDigit bitLength))
   \<and> (\<not> mismatch regStrV2 suffixV2 fileName \<longleftrightarrow>
     (\<exists>k a b c d e plotId.
        ToUpper fileName = ''PLOT-K'' @ k @ ''-'' @ a @ ''-'' @ b @ ''-'' @ c @ ''-'' @ d @ ''-''
              @ e @ ''-'' @ plotId @ ''.PLOT'' \<and>
        length k = 2 \<and> list_all isDigit k \<and>
        length a = 4 \<and> list_all isDigit a \<and>
        length b = 2 \<and> list_all isDigit b \<and>
        length c = 2 \<and> list_all isDigit c \<and>
        length d = 2 \<and> list_all isDigit d \<and>
        length e = 2 \<and> list_all isDigit e \<and>
        length plotId = 64 \<and> list_all isUpperHex plotId))
   \<and> (CallNewMassDBInfoV1FromFile p \<in> set (fst (getOfflineBindingListV1 env dirs all)) \<longrightarrow>
        (\<exists>dbDir\<in>set dirs. \<exists>fis. ioutil_ReadDir env dbDir = Inr fis \<and>
           (\<exists>f\<in>set fis. p = Join dbDir f \<and> \<not> mismatch regStrV1 suffixV1 f)))
   \<and> (CallNewMassDBInfoV2FromFile p
         \<in> set (fst (getOfflineBindingListV2 env dirs all keystoreFile)) \<longrightarrow>
        (\<exists>dbDir\<in>set dirs. \<exists>fis. ioutil_ReadDir env dbDir = Inr fis \<and>
           (\<exists>f\<in>set fis. p = Join dbDir f \<and> \<not> mismatch regStrV2 suffixV2 f)))"
  apply (intro conjI impI)
     apply (rule classify_V1)
    apply (rule classify_V2)
   apply (erule V1_parse)
  apply (erule V2_parse)
  done

text \<open>
  In the example, a name in lower case passes; one hexadecimal digit less, one character
  more or another suffix do not; and the run reads the header of the native file and not
  that of the text file beside it.
\<close>

theorem classifier_is_full_match_witness:
  "\<not> mismatch regStrV1 suffixV1 nameA
   \<and> mismatch regStrV1 suffixV1 (nameA @ ''x'')
   \<and> mismatch regStrV1 suffixV1 ''1_02AABB_32.MASSDB''
   \<and> mismatch regStrV1 suffixV1 ''garbage.txt''
   \<and> \<not> mismatch regStrV2 suffixV2 nameP
   \<and> mismatch regStrV2 suffixV2 (nameP @ ''.tmp'')
   \<and> CallNewMassDBInfoV1FromFile (Join ''/m1u'' nameA)
        \<in> set (fst (getOfflineBindingListV1 (world never) [''/m1u''] False))
   \<and> CallNewMassDBInfoV1FromFile (Join ''/m1u'' ''garbage.txt'')
        \<notin> set (fst (getOfflineBindingListV1 (world never) [''/m1u''] False))
   \<and> CallNewMassDBInfoV2FromFile (Join ''/m2o'' nameP)
        \<in> set (fst (getOfflineBindingListV2 (world never) [''/m2o''] False []))
   \<and> CallNewMassDBInfoV2FromFile (Join ''/m2o'' ''garbage.txt'')
        \<notin> set (fst (getOfflineBindingListV2 (world never) [''/m2o''] False []))"
proof -
  have "\<exists>ordinal pubKey bitLength.
        ToUpper nameA = ordinal @ ''_'' @ pubKey @ ''_'' @ bitLength @ ''.MASSDB'' \<and>
        ordinal \<noteq> [] \<and> list_all isDigit ordinal \<and>
        length pubKey = 66 \<and> list_all isUpperHex pubKey \<and>
        length bitLength = 2 \<and> list_all isDigit bitLength"
    unfolding ToUpper_nameA
    apply (rule exI [of _ "''1''"])
    apply (rule exI [of _ "''02AABBCCDDEEFF00112233445566778899AABBCCDDEEFF00112233445566778899''"])
    apply (rule exI [of _ "''32''"])
    apply (simp add: isDigit_def isUpperHex_def inRange_def)
    done
  then have a: "\<not> mismatch regStrV1 suffixV1 nameA"
    using classifier_is_full_match [where fileName = nameA, THEN conjunct1] by blast
  have "\<exists>k a b c d e plotId.
        ToUpper nameP = ''PLOT-K'' @ k @ ''-'' @ a @ ''-'' @ b @ ''-'' @ c @ ''-'' @ d @ ''-''
              @ e @ ''-'' @ plotId @ ''.PLOT'' \<and>
        length k = 2 \<and> list_all isDigit k \<and>
        length a = 4 \<and> list_all isDigit a \<and>
        length b = 2 \<and> list_all isDigit b \<and>
        length c = 2 \<and> list_all isDigit c \<and>
        length d = 2 \<and> list_all isDigit d \<and>
        length e = 2 \<and> list_all isDigit e \<and>
        length plotId = 64 \<and> list_all isUpperHex plotId"
    unfolding ToUpper_nameP
    apply (rule exI [of _ "''32''"])
    apply (rule exI [of _ "''2021''"])
    apply (rule exI [of _ "''06''"])
    apply (rule exI [of _ "''01''"])
    apply (rule exI [of _ "''12''"])
    apply (rule exI [of _ "''30''"])
    apply (rule exI [of _ "''00112233445566778899AABBCCDDEEFF00112233445566778899AABBCCDDEEFF''"])
    apply (simp add: isDigit_def isUpperHex_def inRange_def)
    done
  then have p: "\<not> mismatch regStrV2 suffixV2 nameP"
    using classifier_is_full_match [where fileName = nameP, THEN conjunct2, THEN conjunct1]
    by blast
  have t1: "CallNewMassDBInfoV1FromFile (Join ''/m1u'' nameA)
        \<in> set (fst (getOfflineBindingListV1 (world never) [''/m1u''] False))"
    and t2: "CallNewMassDBInfoV1FromFile (Join ''/m1u'' ''garbage.txt'')
        \<notin> set (fst (getOfflineBindingListV1 (world never) [''/m1u''] False))"
    by (simp_all add: run_plain_V1 Join_def nameA_def nameB_def)
  have t3: "CallNewMassDBInfoV2FromFile (Join ''/m2o'' nameP)
        \<in> set (fst (getOfflineBindingListV2 (world never) [''/m2o''] False []))"
    and t4: "CallNewMassDBInfoV2FromFile (Join ''/m2o'' ''garbage.txt'')
        \<notin> set (fst (getOfflineBindingListV2 (world never) [''/m2o''] False []))"
    by (simp_all add: run_plain_V2 Join_def nameP_def nameQ_def)
  note u1 = classifier_is_full_match
    [where p = "Join ''/m1u'' nameA" and env = "world never" and dirs = "[''/m1u'']"
       and all = False, THEN conjunct2, THEN conjunct2, THEN conjunct1, rule_format, OF t1]
  note u2 = classifier_is_full_match
    [where p = "Join ''/m2o'' nameP" and env = "world never" and dirs = "[''/m2o'']"
       and all = False and keystoreFile = "[]", THEN conjunct2, THEN conjunct2, THEN conjunct2,
     rule_format, OF t3]
  from a p t1 t2 t3 t4 u1 u2 short_key_rejected trailing_rejected garbage_V1 show ?thesis
    by simp
qed
section \<open>Which files a scan includes\<close>

text \<open>
  C8. In a scan of the native format that no signal interrupts, with every directory
  readable and every needed derivation successful, the plots returned are, in order, those of
  the headers read from files that pass the classifier, restricted to the headers that say
  plotted unless \<open>all\<close> was requested: a header that says not plotted is left out exactly
  when \<open>all\<close> is false, a plotted one is never left out.
\<close>

theorem unplotted_files_need_list_all:
  assumes "\<forall>k. \<not> interruptCh env k"
    and "\<forall>d\<in>set dirs. \<exists>fs. ioutil_ReadDir env d = Inr fs"
    and "\<forall>info\<in>set (concat (map (headersV1 env) dirs)). Plotted info \<or> all \<longrightarrow>
            (\<exists>t. GetMassDBBindingTarget env (PublicKey info) (BitLength info) = Inr t)"
  shows "snd (getOfflineBindingListV1 env dirs all) =
           (map (plotV1 env)
              (filter (\<lambda>info. Plotted info \<or> all) (concat (map (headersV1 env) dirs))), None)"
  using assms by (rule V1_quiet)

theorem unplotted_files_need_list_all_witness:
  "snd (getOfflineBindingListV1 (world never) [''/m1u''] False) =
     ([\<lparr>Target = ''m1-02aa'', Type = ProofTypeDefault, Size = 32\<rparr>], None)
   \<and> snd (getOfflineBindingListV1 (world never) [''/m1u''] True) =
     ([\<lparr>Target = ''m1-02aa'', Type = ProofTypeDefault, Size = 32\<rparr>,
       \<lparr>Target = ''m1-03ff'', Type = ProofTypeDefault, Size = 32\<rparr>], None)"
  using
    unplotted_files_need_list_all [where env = "world never" and dirs = "[''/m1u'']" and all = False]
    unplotted_files_need_list_all [where env = "world never" and dirs = "[''/m1u'']" and all = True]
  by (simp add: world_headersV1 world_simps never_def plotV1_def)

text \<open>
  C6. In a scan of the compatible format that no signal interrupts, with every directory
  readable: when a keystore was given and loaded, the plots returned are, in order, those of
  the headers read from files that pass the classifier for which the store holds both the
  pool key and the farmer key (provided their targets can be derived); when no keystore was
  given, those of all such headers (provided their targets can be derived). The flag \<open>all\<close>
  plays no part.
\<close>

theorem keystore_filters_by_both_keys:
  assumes "\<forall>k. \<not> interruptCh env k"
    and "\<forall>d\<in>set dirs. \<exists>fs. ioutil_ReadDir env d = Inr fs"
  shows "(keystoreFile \<noteq> [] \<and> NewKeystoreFromFile env keystoreFile = Inr ks \<and>
          (\<forall>info\<in>set (concat (map (headersV2 env) dirs)).
             holds (GetPoolPrivateKey ks (PoolPublicKey info)) \<and>
             holds (GetFarmerPrivateKey ks (FarmerPublicKey info)) \<longrightarrow>
             (\<exists>t. GetChiaPlotBindingTarget env (PlotID info) (K info) = Inr t)) \<longrightarrow>
            snd (getOfflineBindingListV2 env dirs all keystoreFile) =
              (map (plotV2 env)
                 (filter (\<lambda>info. holds (GetPoolPrivateKey ks (PoolPublicKey info)) \<and>
                                  holds (GetFarmerPrivateKey ks (FarmerPublicKey info)))
                    (concat (map (headersV2 env) dirs))), None))
         \<and> (keystoreFile = [] \<and>
          (\<forall>info\<in>set (concat (map (headersV2 env) dirs)).
             \<exists>t. GetChiaPlotBindingTarget env (PlotID info) (K info) = Inr t) \<longrightarrow>
            snd (getOfflineBindingListV2 env dirs all keystoreFile) =
              (map (plotV2 env) (concat (map (headersV2 env) dirs)), None))"
proof -
  have with_keys: "snd (getOfflineBindingListV2 env dirs all keystoreFile) =
              (map (plotV2 env)
                 (filter (\<lambda>info. holds (GetPoolPrivateKey ks (PoolPublicKey info)) \<and>
                                  holds (GetFarmerPrivateKey ks (FarmerPublicKey info)))
                    (concat (map (headersV2 env) dirs))), None)"
    if "keystoreFile \<noteq> []" and "NewKeystoreFromFile env keystoreFile = Inr ks"
      and d: "\<forall>info\<in>set (concat (map (headersV2 env) dirs)).
             holds (GetPoolPrivateKey ks (PoolPublicKey info)) \<and>
             holds (GetFarmerPrivateKey ks (FarmerPublicKey info)) \<longrightarrow>
             (\<exists>t. GetChiaPlotBindingTarget env (PlotID info) (K info) = Inr t)"
  proof -
    from d have "\<forall>info\<in>set (concat (map (headersV2 env) dirs)). ownablePlot (Some ks) info \<longrightarrow>
            (\<exists>t. GetChiaPlotBindingTarget env (PlotID info) (K info) = Inr t)"
      by (simp only: ownablePlot_holds)
    from scanV2_quiet [OF assms this, of None] that(1,2) show ?thesis
      by (simp add: V2_quiet_keystore snd_emit ownablePlot_fun)
  qed
  have without: "snd (getOfflineBindingListV2 env dirs all keystoreFile) =
              (map (plotV2 env) (concat (map (headersV2 env) dirs)), None)"
    if "keystoreFile = []"
      and d: "\<forall>info\<in>set (concat (map (headersV2 env) dirs)).
             \<exists>t. GetChiaPlotBindingTarget env (PlotID info) (K info) = Inr t"
  proof -
    from d have "\<forall>info\<in>set (concat (map (headersV2 env) dirs)). ownablePlot None info \<longrightarrow>
            (\<exists>t. GetChiaPlotBindingTarget env (PlotID info) (K info) = Inr t)"
      by blast
    from scanV2_quiet [OF assms this, of None] that(1) show ?thesis
      by (simp add: V2_quiet_none ownablePlot_fun)
  qed
  from with_keys without show ?thesis by blast
qed

theorem keystore_filters_by_both_keys_witness:
  "snd (getOfflineBindingListV2 (world never) [''/m2o''] False ''/keys.json'') =
     ([\<lparr>Target = ''m2-0011'', Type = ProofTypeChia, Size = 32\<rparr>], None)
   \<and> snd (getOfflineBindingListV2 (world never) [''/m2o''] False []) =
     ([\<lparr>Target = ''m2-0011'', Type = ProofTypeChia, Size = 32\<rparr>,
       \<lparr>Target = ''m2-ffee'', Type = ProofTypeChia, Size = 32\<rparr>], None)"
  using
    keystore_filters_by_both_keys
      [where env = "world never" and dirs = "[''/m2o'']" and all = False
         and keystoreFile = "''/keys.json''" and ks = keys]
    keystore_filters_by_both_keys
      [where env = "world never" and dirs = "[''/m2o'']" and all = False
         and keystoreFile = "[]" and ks = keys]
  by (simp add: world_headersV2 world_simps never_def plotV2_def holds_def keys_def
        infoP_def infoQ_def)
section \<open>A header that does not parse\<close>

text \<open>
  C4. In both extractors a file whose header fails to parse is logged and skipped: the loop
  goes on with the remaining entries and the same plots (first two conjuncts, for every
  state of the loop). So the scan of a directory that holds one corrupt and one valid file,
  in either order, returns the valid file's plot alone and no error (last two conjuncts).
\<close>

theorem corrupt_file_is_skipped:
  "(\<not> interruptCh env polls \<and> \<not> mismatch regStrV1 suffixV1 fileName \<and>
    NewMassDBInfoV1FromFile env (Join dbDir fileName) = Inl err \<longrightarrow>
      filesV1 env all dbDir (fileName # fis) polls plots dirSearched =
        emit [Select False, CallNewMassDBInfoV1FromFile (Join dbDir fileName),
              CPrint WARN ''fail to read native massdb info'' [(''err'', FErr (Some err))]]
          (filesV1 env all dbDir fis (Suc polls) plots dirSearched))
   \<and> (\<not> interruptCh env polls \<and> \<not> mismatch regStrV2 suffixV2 fileName \<and>
    NewMassDBInfoV2FromFile env (Join dbDir fileName) = Inl err \<longrightarrow>
      filesV2 env keystore dbDir (fileName # fis) polls plots dirSearched =
        emit [Select False, CallNewMassDBInfoV2FromFile (Join dbDir fileName),
              CPrint WARN ''fail to read chia plot info'' [(''err'', FErr (Some err))]]
          (filesV2 env keystore dbDir fis (Suc polls) plots dirSearched))
   \<and> (\<not> interruptCh env 0 \<and> \<not> interruptCh env 1 \<and>
       ioutil_ReadDir env dbDir = Inr entries \<and>
       (entries = [corrupt, valid] \<or> entries = [valid, corrupt]) \<and>
       \<not> mismatch regStrV1 suffixV1 corrupt \<and> \<not> mismatch regStrV1 suffixV1 valid \<and>
       NewMassDBInfoV1FromFile env (Join dbDir corrupt) = Inl err \<and>
       NewMassDBInfoV1FromFile env (Join dbDir valid) = Inr info \<and>
       (Plotted info \<or> all) \<and>
       GetMassDBBindingTarget env (PublicKey info) (BitLength info) = Inr target \<longrightarrow>
         snd (getOfflineBindingListV1 env [dbDir] all) =
           ([\<lparr>Target = target, Type = ProofTypeDefault, Size = of_int (BitLength info)\<rparr>], None))
   \<and> (\<not> interruptCh env 0 \<and> \<not> interruptCh env 1 \<and>
       ioutil_ReadDir env dbDir = Inr entries \<and>
       (entries = [corrupt, valid] \<or> entries = [valid, corrupt]) \<and>
       \<not> mismatch regStrV2 suffixV2 corrupt \<and> \<not> mismatch regStrV2 suffixV2 valid \<and>
       NewMassDBInfoV2FromFile env (Join dbDir corrupt) = Inl err \<and>
       NewMassDBInfoV2FromFile env (Join dbDir valid) = Inr chiaInfo \<and>
       (keystoreFile = [] \<or>
        NewKeystoreFromFile env keystoreFile = Inr ks \<and> ownablePlot (Some ks) chiaInfo) \<and>
       GetChiaPlotBindingTarget env (PlotID chiaInfo) (K chiaInfo) = Inr target \<longrightarrow>
         snd (getOfflineBindingListV2 env [dbDir] all keystoreFile) =
           ([\<lparr>Target = target, Type = ProofTypeChia, Size = of_int (K chiaInfo)\<rparr>], None))"
proof (intro conjI impI)
  assume "\<not> interruptCh env polls \<and> \<not> mismatch regStrV1 suffixV1 fileName \<and>
    NewMassDBInfoV1FromFile env (Join dbDir fileName) = Inl err"
  then show "filesV1 env all dbDir (fileName # fis) polls plots dirSearched =
        emit [Select False, CallNewMassDBInfoV1FromFile (Join dbDir fileName),
              CPrint WARN ''fail to read native massdb info'' [(''err'', FErr (Some err))]]
          (filesV1 env all dbDir fis (Suc polls) plots dirSearched)"
    by (simp add: emit_def)
next
  assume "\<not> interruptCh env polls \<and> \<not> mismatch regStrV2 suffixV2 fileName \<and>
    NewMassDBInfoV2FromFile env (Join dbDir fileName) = Inl err"
  then show "filesV2 env keystore dbDir (fileName # fis) polls plots dirSearched =
        emit [Select False, CallNewMassDBInfoV2FromFile (Join dbDir fileName),
              CPrint WARN ''fail to read chia plot info'' [(''err'', FErr (Some err))]]
          (filesV2 env keystore dbDir fis (Suc polls) plots dirSearched)"
    by (simp add: emit_def)
next
  assume a: "\<not> interruptCh env 0 \<and> \<not> interruptCh env 1 \<and>
       ioutil_ReadDir env dbDir = Inr entries \<and>
       (entries = [corrupt, valid] \<or> entries = [valid, corrupt]) \<and>
       \<not> mismatch regStrV1 suffixV1 corrupt \<and> \<not> mismatch regStrV1 suffixV1 valid \<and>
       NewMassDBInfoV1FromFile env (Join dbDir corrupt) = Inl err \<and>
       NewMassDBInfoV1FromFile env (Join dbDir valid) = Inr info \<and>
       (Plotted info \<or> all) \<and>
       GetMassDBBindingTarget env (PublicKey info) (BitLength info) = Inr target"
  then have "snd (filesV1 env all dbDir entries 0 [] 0) =
      Inr (2, [\<lparr>Target = target, Type = ProofTypeDefault, Size = of_int (BitLength info)\<rparr>], 1)"
    by (auto simp: snd_emit)
  with a show "snd (getOfflineBindingListV1 env [dbDir] all) =
           ([\<lparr>Target = target, Type = ProofTypeDefault, Size = of_int (BitLength info)\<rparr>], None)"
    by (auto simp: getOfflineBindingListV1_def emit_def split: prod.splits sum.splits)
next
  assume a: "\<not> interruptCh env 0 \<and> \<not> interruptCh env 1 \<and>
       ioutil_ReadDir env dbDir = Inr entries \<and>
       (entries = [corrupt, valid] \<or> entries = [valid, corrupt]) \<and>
       \<not> mismatch regStrV2 suffixV2 corrupt \<and> \<not> mismatch regStrV2 suffixV2 valid \<and>
       NewMassDBInfoV2FromFile env (Join dbDir corrupt) = Inl err \<and>
       NewMassDBInfoV2FromFile env (Join dbDir valid) = Inr chiaInfo \<and>
       (keystoreFile = [] \<or>
        NewKeystoreFromFile env keystoreFile = Inr ks \<and> ownablePlot (Some ks) chiaInfo) \<and>
       GetChiaPlotBindingTarget env (PlotID chiaInfo) (K chiaInfo) = Inr target"
  have scan: "snd (scanV2 env [dbDir] keystore None) =
           ([\<lparr>Target = target, Type = ProofTypeChia, Size = of_int (K chiaInfo)\<rparr>], None)"
    if "ownablePlot keystore chiaInfo" for keystore
  proof -
    from a that have "snd (filesV2 env keystore dbDir entries 0 [] 0) =
        Inr (2, [\<lparr>Target = target, Type = ProofTypeChia, Size = of_int (K chiaInfo)\<rparr>], 1)"
      by (auto simp: snd_emit)
    with a show ?thesis
      by (auto simp: scanV2_def emit_def split: prod.splits sum.splits)
  qed
  from a consider "keystoreFile = []"
    | "keystoreFile \<noteq> []" "NewKeystoreFromFile env keystoreFile = Inr ks"
      "ownablePlot (Some ks) chiaInfo"
    by blast
  then show "snd (getOfflineBindingListV2 env [dbDir] all keystoreFile) =
           ([\<lparr>Target = target, Type = ProofTypeChia, Size = of_int (K chiaInfo)\<rparr>], None)"
  proof cases
    case 1
    with scan [of None] show ?thesis
      by (simp add: V2_quiet_none ownablePlot_holds)
  next
    case 2
    with scan [of "Some ks"] show ?thesis
      by (simp add: V2_quiet_keystore snd_emit)
  qed
qed

theorem corrupt_file_is_skipped_witness:
  "NewMassDBInfoV1FromFile (world never) (Join ''/m1'' nameB) = Inl (ErrorString ''bad header'')
   \<and> snd (getOfflineBindingListV1 (world never) [''/m1''] False) =
        ([\<lparr>Target = ''m1-02aa'', Type = ProofTypeDefault, Size = 32\<rparr>], None)
   \<and> NewMassDBInfoV2FromFile (world never) (Join ''/m2'' nameQ) = Inl (ErrorString ''bad header'')
   \<and> snd (getOfflineBindingListV2 (world never) [''/m2''] False ''/keys.json'') =
        ([\<lparr>Target = ''m2-0011'', Type = ProofTypeChia, Size = 32\<rparr>], None)
   \<and> filesV1 (world never) False ''/m1'' [nameB] 0 [] 0 =
        ([Select False, CallNewMassDBInfoV1FromFile (Join ''/m1'' nameB),
          CPrint WARN ''fail to read native massdb info''
            [(''err'', FErr (Some (ErrorString ''bad header'')))]], Inr (1, [], 0))
   \<and> filesV2 (world never) None ''/m2'' [nameQ] 0 [] 0 =
        ([Select False, CallNewMassDBInfoV2FromFile (Join ''/m2'' nameQ),
          CPrint WARN ''fail to read chia plot info''
            [(''err'', FErr (Some (ErrorString ''bad header'')))]], Inr (1, [], 0))"
  using
    corrupt_file_is_skipped
      [where env = "world never" and polls = 0 and fileName = nameB and dbDir = "''/m1''"
         and err = "ErrorString ''bad header''" and all = False and fis = "[]" and plots = "[]"
         and dirSearched = 0 and entries = "[nameB, nameA]" and corrupt = nameB and valid = nameA
         and info = infoA and target = "''m1-02aa''"]
    corrupt_file_is_skipped
      [where env = "world never" and polls = 0 and fileName = nameQ and dbDir = "''/m2''"
         and err = "ErrorString ''bad header''" and all = False and fis = "[]" and plots = "[]"
         and dirSearched = 0 and entries = "[nameP, nameQ]" and corrupt = nameQ and valid = nameP
         and chiaInfo = infoP and target = "''m2-0011''" and keystore = None
         and keystoreFile = "''/keys.json''" and ks = keys]
  by (simp add: world_simps never_def emit_def)
section \<open>The counts of the binding list\<close>

text \<open>
  C1, as the code and the deduplication described by the spec have it. For the list that
  \<open>getOfflineBindingList\<close> returns, after \<open>RemoveDuplicate\<close>: the total count is the length
  of the plots; the sum of the default count and the chia count is the number of plots
  before the deduplication; so the sum equals the total count when no two plots found by
  the scan have the same target. (A slice of Go has fewer than \<open>2 ^ 63\<close> elements.)
\<close>

theorem counts_after_deduplication:
  assumes "snd (getOfflineBindingList env g) = (Some list0, err)"
    and "length (Plots list0) < 2 ^ 63"
  shows "unat (TotalCount (RemoveDuplicate list0)) = length (Plots (RemoveDuplicate list0))
         \<and> unat (DefaultCount (RemoveDuplicate list0) + ChiaCount (RemoveDuplicate list0)) =
             length (Plots list0)
         \<and> (distinct (map Target (Plots list0)) \<longrightarrow>
             DefaultCount (RemoveDuplicate list0) + ChiaCount (RemoveDuplicate list0) =
               TotalCount (RemoveDuplicate list0))"
proof -
  note c = getOfflineBindingList_counts [OF assms(1)]
  have "length (firstSeen [] (Plots list0)) < 2 ^ 63"
    using length_firstSeen [of "[]" "Plots list0"] assms(2) by simp
  then have total: "unat (TotalCount (RemoveDuplicate list0)) = length (Plots (RemoveDuplicate list0))"
    by (simp add: RemoveDuplicate_def unat_of_nat_64)
  have sum: "unat (DefaultCount (RemoveDuplicate list0) + ChiaCount (RemoveDuplicate list0)) =
             length (Plots list0)"
    using c assms(2) by (simp add: RemoveDuplicate_def unat_of_nat_64)
  have "DefaultCount (RemoveDuplicate list0) + ChiaCount (RemoveDuplicate list0) =
               TotalCount (RemoveDuplicate list0)"
    if "distinct (map Target (Plots list0))"
    using c firstSeen_distinct [OF that, of "[]"] by (simp add: RemoveDuplicate_def)
  with total sum show ?thesis by blast
qed

text \<open>
  In the examples, one directory named twice gives one target twice, and the directory
  \<open>/m1u\<close> gives one plot, so that no target repeats and the counts agree.
\<close>

theorem counts_after_deduplication_witness:
  "snd (getOfflineBindingList (world never) (flags ''m1'' [''/m1'', ''/m1''])) = (Some twice, None)
   \<and> unat (TotalCount (RemoveDuplicate twice)) = 1
   \<and> length (Plots (RemoveDuplicate twice)) = 1
   \<and> unat (DefaultCount (RemoveDuplicate twice) + ChiaCount (RemoveDuplicate twice)) = 2
   \<and> snd (getOfflineBindingList (world never) (flags ''m1'' [''/m1u''])) = (Some single, None)
   \<and> distinct (map Target (Plots single))
   \<and> DefaultCount (RemoveDuplicate single) + ChiaCount (RemoveDuplicate single) =
        TotalCount (RemoveDuplicate single)
   \<and> unat (TotalCount (RemoveDuplicate single)) = 1"
  using
    counts_after_deduplication
      [where env = "world never" and g = "flags ''m1'' [''/m1'', ''/m1'']" and ?list0.0 = twice
         and err = None]
    counts_after_deduplication
      [where env = "world never" and g = "flags ''m1'' [''/m1u'']" and ?list0.0 = single
         and err = None]
  by (simp add: run_twice run_single) (simp add: twice_def single_def RemoveDuplicate_def)

text \<open>
  C1 as the claim states it fails where the scan finds the same target twice in one
  format: naming the directory \<open>/m1\<close> twice gives two plots of the native format with one
  target, no cross-format duplicate, a total count of 1 and a default count of 2.
\<close>

theorem counts_after_deduplication_counterexample:
  "snd (getOfflineBindingList (world never) (flags ''m1'' [''/m1'', ''/m1''])) = (Some twice, None)
   \<and> \<not> crossFormatDuplicates (Plots twice)
   \<and> TotalCount (RemoveDuplicate twice) = 1
   \<and> DefaultCount (RemoveDuplicate twice) + ChiaCount (RemoveDuplicate twice) = 2
   \<and> DefaultCount (RemoveDuplicate twice) + ChiaCount (RemoveDuplicate twice)
       \<noteq> TotalCount (RemoveDuplicate twice)"
  by (simp add: run_twice) (simp add: twice_def RemoveDuplicate_def crossFormatDuplicates_def)

end
